theory Spec2Isabelle
  imports Complex_Main "HOL-Library.Word" "HOL-Library.Sublist" "HOL-Library.Log_Nat"
begin

unbundle bit_operations_syntax

section \<open>JavaScript values used by the compiled-script runtime\<close>

text \<open>
  The runtime of \<^verbatim>\<open>src/compiler/jsexecute.js\<close> works on JavaScript primitives. The
  values that Scratch variables and list items hold are modelled by \<open>jsval\<close>.

  Numbers: \<open>NaN\<close>, the two infinities and the finite numbers, the latter as
  rationals \<open>Fin q\<close> (every finite double is a rational). The quotient and the sum
  in \<open>mod\<close> are rounded to the nearest double (\<open>round_double\<close>); the parsing of
  numerals and the product in \<open>listIndex\<close> are exact. \<open>+0\<close> and \<open>-0\<close> are one value
  \<open>Fin 0\<close> (they are \<open>===\<close> in JavaScript, compare alike and both print as \<open>0\<close>).

  Strings: Isabelle strings, one \<open>char\<close> per UTF-16 code unit, for code units below 256.
\<close>

datatype jsnum = NaN | NegInf | PosInf | Fin rat

datatype jsval = JUndefined | JNull | JBool bool | JNum jsnum | JStr string

subsection \<open>Strings: \<open>trim\<close>, \<open>toLowerCase\<close>\<close>

text \<open>White space and line terminators of ECMAScript among the code units below 256:
  TAB, LF, VT, FF, CR, SP and NBSP.\<close>

definition is_js_space :: "char \<Rightarrow> bool" where
  "is_js_space c = (of_char c \<in> {9, 10, 11, 12, 13, 32, 160 :: nat})"

definition trim :: "string \<Rightarrow> string" where
  "trim s = rev (dropWhile is_js_space (rev (dropWhile is_js_space s)))"

text \<open>\<open>toLowerCase\<close>: the letters A-Z, and the Latin-1 capitals 0xC0-0xDE except the
  multiplication sign 0xD7, move up by 32.\<close>

definition lower_char :: "char \<Rightarrow> char" where
  "lower_char c =
     (let n = (of_char c :: nat)
      in if (65 \<le> n \<and> n \<le> 90) \<or> (192 \<le> n \<and> n \<le> 222 \<and> n \<noteq> 215)
         then char_of (n + 32) else c)"

definition toLowerCase :: "string \<Rightarrow> string" where
  "toLowerCase s = map lower_char s"

subsection \<open>\<open>ToNumber\<close> applied to a string (the unary \<open>+\<close> of the source)\<close>

definition is_digit :: "char \<Rightarrow> bool" where
  "is_digit c = (48 \<le> (of_char c :: nat) \<and> (of_char c :: nat) \<le> 57)"

definition is_hex_digit :: "char \<Rightarrow> bool" where
  "is_hex_digit c =
     (let n = (of_char c :: nat)
      in (48 \<le> n \<and> n \<le> 57) \<or> (65 \<le> n \<and> n \<le> 70) \<or> (97 \<le> n \<and> n \<le> 102))"

definition digit_val :: "char \<Rightarrow> nat" where
  "digit_val c =
     (let n = (of_char c :: nat)
      in if 97 \<le> n then n - 87 else if 65 \<le> n then n - 55 else n - 48)"

definition digits_val :: "nat \<Rightarrow> string \<Rightarrow> nat" where
  "digits_val base ds = foldl (\<lambda>a c. a * base + digit_val c) 0 ds"

text \<open>\<open>0x\<close>, \<open>0o\<close> and \<open>0b\<close> literals (no sign allowed).\<close>

definition parse_radix :: "string \<Rightarrow> nat option" where
  "parse_radix t =
     (case t of
        z # x # ds \<Rightarrow>
          if z \<noteq> CHR ''0'' \<or> ds = [] then None
          else if (x = CHR ''x'' \<or> x = CHR ''X'') \<and> list_all is_hex_digit ds
            then Some (digits_val 16 ds)
          else if (x = CHR ''o'' \<or> x = CHR ''O'')
                  \<and> list_all (\<lambda>c. is_digit c \<and> digit_val c < 8) ds
            then Some (digits_val 8 ds)
          else if (x = CHR ''b'' \<or> x = CHR ''B'')
                  \<and> list_all (\<lambda>c. is_digit c \<and> digit_val c < 2) ds
            then Some (digits_val 2 ds)
          else None
      | _ \<Rightarrow> None)"

text \<open>The exponent part: empty, or \<open>e\<close>/\<open>E\<close>, an optional sign and at least one digit.\<close>

definition parse_exponent :: "string \<Rightarrow> int option" where
  "parse_exponent r =
     (case r of
        [] \<Rightarrow> Some 0
      | e # r1 \<Rightarrow>
          if e \<noteq> CHR ''e'' \<and> e \<noteq> CHR ''E'' then None
          else
            (let neg = (case r1 of s # _ \<Rightarrow> s = CHR ''-'' | [] \<Rightarrow> False);
                 ds = (case r1 of s # r2 \<Rightarrow> if s = CHR ''+'' \<or> s = CHR ''-'' then r2 else r1
                       | [] \<Rightarrow> [])
             in if ds = [] \<or> \<not> list_all is_digit ds then None
                else Some (if neg then - int (digits_val 10 ds) else int (digits_val 10 ds))))"

definition pow10 :: "int \<Rightarrow> rat" where
  "pow10 k = (if 0 \<le> k then 10 ^ nat k else 1 / 10 ^ nat (- k))"

text \<open>An unsigned decimal literal: \<open>Infinity\<close>, or digits with an optional fraction and
  exponent; at least one digit before or after the point.\<close>

definition parse_unsigned :: "string \<Rightarrow> jsnum" where
  "parse_unsigned u =
     (if u = ''Infinity'' then PosInf
      else
        (let ip = takeWhile is_digit u;
             r1 = dropWhile is_digit u;
             fp = (case r1 of d # r \<Rightarrow> if d = CHR ''.'' then takeWhile is_digit r else []
                   | [] \<Rightarrow> []);
             r2 = (case r1 of d # r \<Rightarrow> if d = CHR ''.'' then dropWhile is_digit r else r1
                   | [] \<Rightarrow> [])
         in if ip = [] \<and> fp = [] then NaN
            else (case parse_exponent r2 of
                    None \<Rightarrow> NaN
                  | Some e \<Rightarrow>
                      Fin (of_nat (digits_val 10 (ip @ fp)) * pow10 (e - int (length fp))))))"

definition js_neg :: "jsnum \<Rightarrow> jsnum" where
  "js_neg n = (case n of NaN \<Rightarrow> NaN | NegInf \<Rightarrow> PosInf | PosInf \<Rightarrow> NegInf | Fin q \<Rightarrow> Fin (- q))"

definition string_to_number :: "string \<Rightarrow> jsnum" where
  "string_to_number s =
     (let t = trim s
      in if t = [] then Fin 0
         else (case parse_radix t of
                 Some n \<Rightarrow> Fin (of_nat n)
               | None \<Rightarrow>
                   (case t of
                      c # r \<Rightarrow>
                        if c = CHR ''+'' then parse_unsigned r
                        else if c = CHR ''-'' then js_neg (parse_unsigned r)
                        else parse_unsigned t
                    | [] \<Rightarrow> NaN)))"

subsection \<open>\<open>ToString\<close> applied to a number\<close>

fun nat_digits :: "nat \<Rightarrow> string" where
  "nat_digits n =
     (if n < 10 then [char_of (48 + n)]
      else nat_digits (n div 10) @ [char_of (48 + n mod 10)])"

declare nat_digits.simps [simp del]

primrec frac_digits :: "nat \<Rightarrow> rat \<Rightarrow> string" where
  "frac_digits 0 f = []"
| "frac_digits (Suc k) f =
     (if f = 0 then []
      else (let d = nat \<lfloor>f * 10\<rfloor> in char_of (48 + d) # frac_digits k (f * 10 - of_nat d)))"

text \<open>An integer prints as its decimal numeral (JavaScript does so below \<open>10^21\<close>); a
  fraction prints its decimal expansion in positional notation, cut after 20 places
  (JavaScript prints the shortest expansion that reads back as the same double, which
  is this one for the decimal fractions of up to 15 significant digits from \<open>10^-6\<close>
  on).\<close>

definition number_to_string :: "jsnum \<Rightarrow> string" where
  "number_to_string n =
     (case n of
        NaN \<Rightarrow> ''NaN''
      | PosInf \<Rightarrow> ''Infinity''
      | NegInf \<Rightarrow> ''-Infinity''
      | Fin q \<Rightarrow>
          (let a = \<bar>q\<bar>; ip = nat \<lfloor>a\<rfloor>; f = a - of_nat ip
           in (if q < 0 then ''-'' else [])
              @ nat_digits ip
              @ (if f = 0 then [] else CHR ''.'' # frac_digits 20 f)))"

subsection \<open>Coercions of values\<close>

text \<open>\<open>+v\<close> in the source.\<close>

definition to_number :: "jsval \<Rightarrow> jsnum" where
  "to_number v =
     (case v of
        JUndefined \<Rightarrow> NaN
      | JNull \<Rightarrow> Fin 0
      | JBool b \<Rightarrow> Fin (if b then 1 else 0)
      | JNum n \<Rightarrow> n
      | JStr s \<Rightarrow> string_to_number s)"

text \<open>\<open>'' + v\<close> and \<open>v + ''\<close> in the source.\<close>

definition to_string :: "jsval \<Rightarrow> string" where
  "to_string v =
     (case v of
        JUndefined \<Rightarrow> ''undefined''
      | JNull \<Rightarrow> ''null''
      | JBool b \<Rightarrow> (if b then ''true'' else ''false'')
      | JNum n \<Rightarrow> number_to_string n
      | JStr s \<Rightarrow> s)"

text \<open>\<open>===\<close> on two numbers: \<open>NaN\<close> equals nothing.\<close>

definition num_strict_eq :: "jsnum \<Rightarrow> jsnum \<Rightarrow> bool" where
  "num_strict_eq a b = (a \<noteq> NaN \<and> b \<noteq> NaN \<and> a = b)"

definition isNaN :: "jsnum \<Rightarrow> bool" where
  "isNaN n = (n = NaN)"

section \<open>Comparison: \<open>isWhiteSpace\<close> and \<open>compareEqual\<close>\<close>

text \<open>
  \<^verbatim>\<open>const isWhiteSpace = val => (
      val === null || (typeof val === 'string' && val.trim().length === 0));\<close>
\<close>

definition isWhiteSpace :: "jsval \<Rightarrow> bool" where
  "isWhiteSpace val =
     (val = JNull \<or> (case val of JStr s \<Rightarrow> length (trim s) = 0 | _ \<Rightarrow> False))"

text \<open>
  \<^verbatim>\<open>const compareEqual = (v1, v2) => {
      let n1 = +v1;
      let n2 = +v2;
      if (n1 === 0 && isWhiteSpace(v1)) { n1 = NaN; }
      else if (n2 === 0 && isWhiteSpace(v2)) { n2 = NaN; }
      if (isNaN(n1) || isNaN(n2)) {
          const s1 = ('' + v1).toLowerCase();
          const s2 = ('' + v2).toLowerCase();
          return s1 === s2;
      }
      return n1 === n2;
  };\<close>
  The second test is an \<open>else if\<close>: it is not reached when the first one fired.
\<close>

definition compareEqual :: "jsval \<Rightarrow> jsval \<Rightarrow> bool" where
  "compareEqual v1 v2 =
     (let n1 = to_number v1;
          n2 = to_number v2;
          n1' = (if num_strict_eq n1 (Fin 0) \<and> isWhiteSpace v1 then NaN else n1);
          n2' = (if num_strict_eq n1 (Fin 0) \<and> isWhiteSpace v1 then n2
                 else if num_strict_eq n2 (Fin 0) \<and> isWhiteSpace v2 then NaN else n2)
      in if isNaN n1' \<or> isNaN n2'
         then toLowerCase (to_string v1) = toLowerCase (to_string v2)
         else num_strict_eq n1' n2')"

section \<open>List primitives\<close>

subsection \<open>Arithmetic on numbers\<close>

text \<open>\<open>ToInt32\<close>: \<open>NaN\<close> and the infinities give 0; a finite number is truncated towards
  zero and wrapped into 32 bits.\<close>

definition truncate_rat :: "rat \<Rightarrow> int" where
  "truncate_rat q = (if q < 0 then \<lceil>q\<rceil> else \<lfloor>q\<rfloor>)"

definition to_int32 :: "jsnum \<Rightarrow> 32 word" where
  "to_int32 n = (case n of Fin q \<Rightarrow> word_of_int (truncate_rat q) | _ \<Rightarrow> 0)"

text \<open>\<open>a | b\<close>: both operands to 32 bits, bitwise or, read as a signed integer.\<close>

definition js_bitor :: "jsnum \<Rightarrow> jsnum \<Rightarrow> int" where
  "js_bitor a b = sint (to_int32 a OR to_int32 b)"

text \<open>\<open>n || 0\<close> for a number \<open>n\<close>: the falsy numbers are \<open>NaN\<close> and zero.\<close>

definition or_zero :: "jsnum \<Rightarrow> jsnum" where
  "or_zero n = (if n = NaN \<or> n = Fin 0 then Fin 0 else n)"

subsection \<open>\<open>listIndex\<close>\<close>

text \<open>
  \<^verbatim>\<open>const listIndex = (index, length) => {
      if (typeof index !== 'number') {
          if (index === 'last') {
              if (length > 0) { return length - 1; }
              return -1;
          } else if (index === 'random' || index === '*') {
              if (length > 0) { return (Math.random() * length) | 0; }
              return -1;
          }
          index = +index || 0;
      }
      index = index | 0;
      if (index < 1 || index > length) { return -1; }
      return index - 1;
  };\<close>
  The callers pass the length of an array (or that length plus one), an integer; the
  value that \<open>Math.random()\<close> returns is the parameter \<open>rnd\<close>. The lines after the
  outer \<open>if\<close> are \<open>index_in_range\<close>.
\<close>

definition index_in_range :: "jsnum \<Rightarrow> int \<Rightarrow> int" where
  "index_in_range index len =
     (let i = js_bitor index (Fin 0)
      in if i < 1 \<or> i > len then - 1 else i - 1)"

definition listIndex :: "rat \<Rightarrow> jsval \<Rightarrow> int \<Rightarrow> int" where
  "listIndex rnd index len =
     (case index of
        JNum n \<Rightarrow> index_in_range n len
      | _ \<Rightarrow>
          if index = JStr ''last'' then (if len > 0 then len - 1 else - 1)
          else if index = JStr ''random'' \<or> index = JStr ''*''
            then (if len > 0 then js_bitor (Fin (rnd * of_int len)) (Fin 0) else - 1)
          else index_in_range (or_zero (to_number index)) len)"

text \<open>For the statements about the list mutators: an index that is invalid for a list
  of the given length. The list is empty; or the index is none of \<open>"last"\<close>, \<open>"random"\<close>
  and \<open>"*"\<close>, and the number it coerces to is \<open>NaN\<close> or infinite, or, truncated towards
  zero, lies in the signed 32-bit range and outside \<open>[1, length]\<close>.\<close>

definition invalid_index :: "jsval \<Rightarrow> int \<Rightarrow> bool" where
  "invalid_index idx len =
     (len = 0
      \<or> (idx \<noteq> JStr ''last'' \<and> idx \<noteq> JStr ''random'' \<and> idx \<noteq> JStr ''*''
         \<and> (case to_number idx of
               Fin q \<Rightarrow> - (2 ^ 31) \<le> truncate_rat q \<and> truncate_rat q < 2 ^ 31
                          \<and> (truncate_rat q < 1 \<or> len < truncate_rat q)
             | _ \<Rightarrow> True)))"

subsection \<open>Lists and their accessors\<close>

text \<open>A list variable (\<^verbatim>\<open>engine/variable\<close>): the array \<open>value\<close> and the flag
  \<open>_monitorUpToDate\<close> that list monitors read.\<close>

record scratch_list =
  list_value :: "jsval list"
  monitorUpToDate :: bool

text \<open>\<open>a[i]\<close>, \<open>a[i] = v\<close> and the two uses of \<open>splice\<close>. Reading outside the array
  gives \<open>undefined\<close>; writing beyond its end extends it, with holes that read as
  \<open>undefined\<close>; writing at a negative index sets a property and leaves the elements
  alone.\<close>

definition array_get :: "jsval list \<Rightarrow> int \<Rightarrow> jsval" where
  "array_get a i = (if 0 \<le> i \<and> i < int (length a) then a ! nat i else JUndefined)"

definition array_set :: "jsval list \<Rightarrow> int \<Rightarrow> jsval \<Rightarrow> jsval list" where
  "array_set a i v =
     (if i < 0 then a
      else if i < int (length a) then a[nat i := v]
      else a @ replicate (nat i - length a) JUndefined @ [v])"

text \<open>\<open>a.splice(i, 0, v)\<close> and \<open>a.splice(i, 1)\<close>; a negative start counts from the end.\<close>

definition splice_start :: "jsval list \<Rightarrow> int \<Rightarrow> nat" where
  "splice_start a i =
     (if i < 0 then nat (max 0 (int (length a) + i)) else min (nat i) (length a))"

definition splice_insert :: "jsval list \<Rightarrow> int \<Rightarrow> jsval \<Rightarrow> jsval list" where
  "splice_insert a i v = take (splice_start a i) a @ [v] @ drop (splice_start a i) a"

definition splice_delete :: "jsval list \<Rightarrow> int \<Rightarrow> jsval list" where
  "splice_delete a i = take (splice_start a i) a @ drop (Suc (splice_start a i)) a"

text \<open>
  \<^verbatim>\<open>const listGet = (list, idx) => {
      const index = listIndex(idx, list.length);
      if (index === -1) { return ''; }
      return list[index];
  }\<close>
\<close>

definition listGet :: "rat \<Rightarrow> jsval list \<Rightarrow> jsval \<Rightarrow> jsval" where
  "listGet rnd list idx =
     (let index = listIndex rnd idx (int (length list))
      in if index = - 1 then JStr [] else array_get list index)"

text \<open>
  \<^verbatim>\<open>const listReplace = (list, idx, value) => {
      const index = listIndex(idx, list.value.length);
      if (index === -1) { return; }
      list.value[index] = value;
      list._monitorUpToDate = false;
  }\<close>
\<close>

definition listReplace :: "rat \<Rightarrow> scratch_list \<Rightarrow> jsval \<Rightarrow> jsval \<Rightarrow> scratch_list" where
  "listReplace rnd list idx v =
     (let index = listIndex rnd idx (int (length (list_value list)))
      in if index = - 1 then list
         else list\<lparr>list_value := array_set (list_value list) index v,
                   monitorUpToDate := False\<rparr>)"

text \<open>
  \<^verbatim>\<open>const listInsert = (list, idx, value) => {
      const index = listIndex(idx, list.value.length + 1);
      if (index === -1) { return; }
      list.value.splice(index, 0, value);
      list._monitorUpToDate = false;
  }\<close>
\<close>

definition listInsert :: "rat \<Rightarrow> scratch_list \<Rightarrow> jsval \<Rightarrow> jsval \<Rightarrow> scratch_list" where
  "listInsert rnd list idx v =
     (let index = listIndex rnd idx (int (length (list_value list)) + 1)
      in if index = - 1 then list
         else list\<lparr>list_value := splice_insert (list_value list) index v,
                   monitorUpToDate := False\<rparr>)"

text \<open>
  \<^verbatim>\<open>const listDelete = (list, idx) => {
      if (idx === 'all') {
          list.value = [];
          return;
      }
      const index = listIndex(idx, list.value.length);
      if (index === -1) { return; }
      list.value.splice(index, 1);
      list._monitorUpToDate = false;
  }\<close>
\<close>

definition listDelete :: "rat \<Rightarrow> scratch_list \<Rightarrow> jsval \<Rightarrow> scratch_list" where
  "listDelete rnd list idx =
     (if idx = JStr ''all'' then list\<lparr>list_value := []\<rparr>
      else
        (let index = listIndex rnd idx (int (length (list_value list)))
         in if index = - 1 then list
            else list\<lparr>list_value := splice_delete (list_value list) index,
                      monitorUpToDate := False\<rparr>))"

text \<open>\<open>Array.prototype.join\<close>: \<open>undefined\<close> and \<open>null\<close> elements give the empty string,
  every other element its \<open>ToString\<close>.\<close>

definition join_item :: "jsval \<Rightarrow> string" where
  "join_item v = (if v = JUndefined \<or> v = JNull then [] else to_string v)"

fun join :: "string \<Rightarrow> jsval list \<Rightarrow> string" where
  "join sep [] = []"
| "join sep [x] = join_item x"
| "join sep (x # y # ys) = join_item x @ sep @ join sep (y # ys)"

text \<open>
  \<^verbatim>\<open>const listContents = list => {
      for (let i = 0; i < list.value.length; i++) {
          const listItem = list.value[i];
          if ((listItem + '').length !== 1) {
              return list.value.join(' ');
          }
      }
      return list.value.join('');
  }\<close>
  The loop is \<open>listContents_from\<close>: the items still to be looked at, and the array.
\<close>

fun listContents_from :: "jsval list \<Rightarrow> jsval list \<Rightarrow> string" where
  "listContents_from [] a = join [] a"
| "listContents_from (listItem # rest) a =
     (if length (to_string listItem) \<noteq> 1 then join '' '' a
      else listContents_from rest a)"

definition listContents :: "scratch_list \<Rightarrow> string" where
  "listContents list = listContents_from (list_value list) (list_value list)"

section \<open>\<open>mod\<close>\<close>

subsection \<open>Rounding to the nearest double\<close>

text \<open>The integer nearest to a rational, a tie going to the even one.\<close>

definition round_even :: "rat \<Rightarrow> int" where
  "round_even x =
     (let f = \<lfloor>x\<rfloor>; d = x - of_int f
      in if d < 1 / 2 then f
         else if 1 / 2 < d then f + 1
         else if even f then f else f + 1)"

text \<open>The binary exponent of a positive rational \<open>a\<close>: the \<open>e\<close> with
  \<open>2^e \<le> a < 2^(e+1)\<close>. The bit lengths of numerator and denominator give it up to
  one.\<close>

definition binade :: "rat \<Rightarrow> int" where
  "binade a =
     (let c = bitlen (fst (quotient_of a)) - bitlen (snd (quotient_of a))
      in if 2 powi c \<le> a then c else c - 1)"

text \<open>IEEE 754 binary64, round to nearest, ties to even: 53 significant bits, the
  exponent not below -1022 (below it the spacing stays \<open>2^-1074\<close>: subnormal numbers,
  and underflow to zero), and overflow to an infinity from \<open>2^1024\<close> on.\<close>

definition round_double :: "rat \<Rightarrow> jsnum" where
  "round_double q =
     (if q = 0 then Fin 0
      else
        (let a = \<bar>q\<bar>;
             e = max (binade a) (- 1022);
             ulp = 2 powi (e - 52);
             r = of_int (round_even (a / ulp)) * ulp
         in if 2 powi 1024 \<le> r then (if q < 0 then NegInf else PosInf)
            else Fin (if q < 0 then - r else r)))"

subsection \<open>The operators\<close>

text \<open>The operators \<open>%\<close>, \<open>/\<close>, \<open><\<close> and \<open>+\<close> on numbers. The remainder of two doubles
  is a double and is computed exactly; the quotient and the sum are rounded. A zero has
  no sign in this model (a result that rounds to \<open>-0\<close> is \<open>Fin 0\<close>, which compares like
  it), so a finite nonzero number divided by zero takes the sign of the dividend.\<close>

definition js_rem :: "jsnum \<Rightarrow> jsnum \<Rightarrow> jsnum" where
  "js_rem a b =
     (case (a, b) of
        (Fin x, Fin y) \<Rightarrow> if y = 0 then NaN else Fin (x - y * of_int (truncate_rat (x / y)))
      | (Fin x, PosInf) \<Rightarrow> Fin x
      | (Fin x, NegInf) \<Rightarrow> Fin x
      | _ \<Rightarrow> NaN)"

definition js_div :: "jsnum \<Rightarrow> jsnum \<Rightarrow> jsnum" where
  "js_div a b =
     (case (a, b) of
        (Fin x, Fin y) \<Rightarrow>
          if y = 0 then (if x = 0 then NaN else if 0 < x then PosInf else NegInf)
          else round_double (x / y)
      | (Fin x, PosInf) \<Rightarrow> Fin 0
      | (Fin x, NegInf) \<Rightarrow> Fin 0
      | (PosInf, Fin y) \<Rightarrow> if y < 0 then NegInf else PosInf
      | (NegInf, Fin y) \<Rightarrow> if y < 0 then PosInf else NegInf
      | _ \<Rightarrow> NaN)"

definition js_less :: "jsnum \<Rightarrow> jsnum \<Rightarrow> bool" where
  "js_less a b =
     (case (a, b) of
        (Fin x, Fin y) \<Rightarrow> x < y
      | (Fin x, PosInf) \<Rightarrow> True
      | (NegInf, Fin y) \<Rightarrow> True
      | (NegInf, PosInf) \<Rightarrow> True
      | _ \<Rightarrow> False)"

definition js_add :: "jsnum \<Rightarrow> jsnum \<Rightarrow> jsnum" where
  "js_add a b =
     (case (a, b) of
        (Fin x, Fin y) \<Rightarrow> round_double (x + y)
      | (Fin x, PosInf) \<Rightarrow> PosInf
      | (Fin x, NegInf) \<Rightarrow> NegInf
      | (PosInf, Fin y) \<Rightarrow> PosInf
      | (NegInf, Fin y) \<Rightarrow> NegInf
      | (PosInf, PosInf) \<Rightarrow> PosInf
      | (NegInf, NegInf) \<Rightarrow> NegInf
      | _ \<Rightarrow> NaN)"

text \<open>
  \<^verbatim>\<open>const mod = (n, modulus) => {
      let result = n % modulus;
      if (result / modulus < 0) result += modulus;
      return result;
  }\<close>
\<close>

definition mod_js :: "jsnum \<Rightarrow> jsnum \<Rightarrow> jsnum" where
  "mod_js n modulus =
     (let result = js_rem n modulus
      in if js_less (js_div result modulus) (Fin 0) then js_add result modulus
         else result)"

text \<open>For the statements about \<open>mod\<close>: the exact value of \<open>x % y\<close> (the remainder of the
  division truncated towards zero), the floored-division modulo of the specification,
  and the rationals that are doubles.\<close>

definition trunc_rem :: "rat \<Rightarrow> rat \<Rightarrow> rat" where
  "trunc_rem x y = x - y * of_int (truncate_rat (x / y))"

definition floor_mod :: "rat \<Rightarrow> rat \<Rightarrow> rat" where
  "floor_mod x y = x - y * of_int \<lfloor>x / y\<rfloor>"

definition is_double :: "rat \<Rightarrow> bool" where
  "is_double x = (round_double x = Fin x)"

section \<open>Threads and suspension\<close>

text \<open>The thread states of the engine, as the numbers the source writes
  (\<^verbatim>\<open>thread.status = 0; // STATUS_RUNNING\<close> and so on).\<close>

definition STATUS_RUNNING :: nat where "STATUS_RUNNING = 0"
definition STATUS_PROMISE_WAIT :: nat where "STATUS_PROMISE_WAIT = 1"
definition STATUS_YIELD :: nat where "STATUS_YIELD = 2"
definition STATUS_YIELD_TICK :: nat where "STATUS_YIELD_TICK = 3"
definition STATUS_DONE :: nat where "STATUS_DONE = 4"

text \<open>What one call of \<open>next()\<close> on a generator produces: it suspends at a \<open>yield\<close>,
  returns a value, or throws.\<close>

datatype 'a gen_result = Yield | Return 'a | Throw jsval

subsection \<open>\<open>isStuck\<close>\<close>

text \<open>
  \<^verbatim>\<open>let stuckCounter = 0;
  const isStuck = () => {
      stuckCounter++;
      if (stuckCounter === 100) {
          stuckCounter = 0;
          return globalState.thread.target.runtime.sequencer.timer.timeElapsed() > 500;
      }
      return false;
  }\<close>
  The state is the counter, and the number of calls made to the sequencer timer's
  \<open>timeElapsed\<close>, so that a call that leaves the clock alone can be told from one that
  reads it. The argument \<open>elapsed\<close> is what \<open>timeElapsed()\<close> returns when it is called.
\<close>

record stuck_state =
  stuckCounter :: nat
  timer_reads :: nat

definition isStuck :: "jsnum \<Rightarrow> stuck_state \<Rightarrow> bool \<times> stuck_state" where
  "isStuck elapsed s =
     (let c = stuckCounter s + 1
      in if c = 100
         then (js_less (Fin 500) elapsed, s\<lparr>stuckCounter := 0, timer_reads := timer_reads s + 1\<rparr>)
         else (False, s\<lparr>stuckCounter := c\<rparr>))"

text \<open>A sequence of calls, one clock value per call; the results in order and the final
  state.\<close>

fun isStuck_calls :: "jsnum list \<Rightarrow> stuck_state \<Rightarrow> bool list \<times> stuck_state" where
  "isStuck_calls [] s = ([], s)"
| "isStuck_calls (e # es) s =
     (let (r, s1) = isStuck e s; (rs, s2) = isStuck_calls es s1 in (r # rs, s2))"

subsection \<open>\<open>waitThreads\<close>\<close>

text \<open>\<open>Array.prototype.indexOf\<close>: the first position holding the element, or -1. Thread
  objects are compared by identity.\<close>

fun indexOf_from :: "int \<Rightarrow> 'a list \<Rightarrow> 'a \<Rightarrow> int" where
  "indexOf_from i [] x = - 1"
| "indexOf_from i (y # ys) x = (if y = x then i else indexOf_from (i + 1) ys x)"

definition indexOf :: "'a list \<Rightarrow> 'a \<Rightarrow> int" where
  "indexOf a x = indexOf_from 0 a x"

text \<open>The scheduler as \<open>waitThreads\<close> sees it: the active threads \<open>runtime.threads\<close> and
  the predicate \<open>runtime.isWaitingThread\<close>.\<close>

record 't runtime =
  threads :: "'t list"
  isWaitingThread :: "'t \<Rightarrow> bool"

text \<open>
  \<^verbatim>\<open>const waitThreads = function*(threads) {
      const thread = globalState.thread;
      const runtime = thread.target.runtime;
      while (true) {
          let anyRunning = false;
          for (let i = 0; i < threads.length; i++) {
              if (runtime.threads.indexOf(threads[i]) !== -1) {
                  anyRunning = true;
                  break;
              }
          }
          if (!anyRunning) { return; }
          let allWaiting = true;
          for (let i = 0; i < threads.length; i++) {
              if (!runtime.isWaitingThread(threads[i])) {
                  allWaiting = false;
                  break;
              }
          }
          if (allWaiting) { thread.status = 3; }
          yield;
      }
  }\<close>
  The two \<open>for\<close> loops:
\<close>

fun anyRunning :: "'t runtime \<Rightarrow> 't list \<Rightarrow> bool" where
  "anyRunning rt [] = False"
| "anyRunning rt (t # ts) = (if indexOf (threads rt) t \<noteq> - 1 then True else anyRunning rt ts)"

fun allWaiting :: "'t runtime \<Rightarrow> 't list \<Rightarrow> bool" where
  "allWaiting rt [] = True"
| "allWaiting rt (t # ts) = (if \<not> isWaitingThread rt t then False else allWaiting rt ts)"

text \<open>One call of \<open>next()\<close> on the generator runs the loop body once, from the loop head
  (where the generator starts, and where it continues after a \<open>yield\<close>) to the \<open>return\<close>
  or to the \<open>yield\<close>. It sees the scheduler as it is at that moment, takes the current
  thread's status and gives it back; \<open>wt_yields\<close> counts the suspensions so far.\<close>

record wt_state =
  wt_status :: nat
  wt_yields :: nat
  wt_done :: bool

definition waitThreads_next :: "'t runtime \<Rightarrow> 't list \<Rightarrow> wt_state \<Rightarrow> unit gen_result \<times> wt_state" where
  "waitThreads_next rt ths s =
     (if wt_done s then (Return (), s)
      else if \<not> anyRunning rt ths then (Return (), s\<lparr>wt_done := True\<rparr>)
      else (Yield,
            s\<lparr>wt_status := (if allWaiting rt ths then 3 else wt_status s),
              wt_yields := wt_yields s + 1\<rparr>))"

subsection \<open>\<open>waitPromise\<close>\<close>

text \<open>What a promise settles to.\<close>

datatype settled = Fulfilled jsval | Rejected jsval

text \<open>\<open>p.then(h)\<close> and \<open>p.catch(h)\<close> for handlers that do not throw, as state transformers:
  the handler runs if the promise settled its way, and the derived promise is fulfilled
  with the handler's result (\<open>undefined\<close> for the handlers of \<open>waitPromise\<close>); otherwise the
  settlement passes through to the derived promise.\<close>

definition promise_then :: "(jsval \<Rightarrow> 's \<Rightarrow> 's) \<Rightarrow> settled \<times> 's \<Rightarrow> settled \<times> 's" where
  "promise_then h ps =
     (case fst ps of
        Fulfilled v \<Rightarrow> (Fulfilled JUndefined, h v (snd ps))
      | Rejected e \<Rightarrow> (Rejected e, snd ps))"

definition promise_catch :: "(jsval \<Rightarrow> 's \<Rightarrow> 's) \<Rightarrow> settled \<times> 's \<Rightarrow> settled \<times> 's" where
  "promise_catch h ps =
     (case fst ps of
        Fulfilled v \<Rightarrow> (Fulfilled v, snd ps)
      | Rejected e \<Rightarrow> (Fulfilled JUndefined, h e (snd ps)))"

text \<open>
  \<^verbatim>\<open>const waitPromise = function*(promise) {
      const thread = globalState.thread;
      let returnValue;
      promise
          .then(value => {
              returnValue = value;
              thread.status = 0; // STATUS_RUNNING
          })
          .catch(error => {
              thread.status = 0; // STATUS_RUNNING
              globalState.log.warn('Promise rejected in compiled script:', error);
          });
      thread.status = 1; // STATUS_PROMISE_WAIT
      yield;
      return returnValue;
  };\<close>
  The state: the thread's status, the local \<open>returnValue\<close>, and the warnings logged.
\<close>

record wp_state =
  status :: nat
  returnValue :: jsval
  warnings :: "(string \<times> jsval) list"

definition on_fulfilled :: "jsval \<Rightarrow> wp_state \<Rightarrow> wp_state" where
  "on_fulfilled v s = s\<lparr>returnValue := v, status := 0\<rparr>"

definition on_rejected :: "jsval \<Rightarrow> wp_state \<Rightarrow> wp_state" where
  "on_rejected error s =
     s\<lparr>status := 0,
       warnings := warnings s @ [(''Promise rejected in compiled script:'', error)]\<rparr>"

text \<open>The first \<open>next()\<close>: \<open>returnValue\<close> is declared (undefined), the handlers are attached,
  the status is set and the generator suspends. Handlers of a promise run in a later
  job, never inside the call that attaches them, so they see the status already set.\<close>

definition waitPromise_start :: "wp_state \<Rightarrow> unit gen_result \<times> wp_state" where
  "waitPromise_start s = (Yield, s\<lparr>returnValue := JUndefined, status := 1\<rparr>)"

text \<open>The promise settles: the job of \<open>promise.then(...).catch(...)\<close>. The result is the
  settlement of the promise that \<open>catch\<close> returns, and the new state.\<close>

definition waitPromise_settle :: "settled \<Rightarrow> wp_state \<Rightarrow> settled \<times> wp_state" where
  "waitPromise_settle outcome s = promise_catch on_rejected (promise_then on_fulfilled (outcome, s))"

text \<open>The second \<open>next()\<close>: \<open>return returnValue\<close>.\<close>

definition waitPromise_resume :: "wp_state \<Rightarrow> jsval gen_result \<times> wp_state" where
  "waitPromise_resume s = (Return (returnValue s), s)"

section \<open>The script assembler\<close>

text \<open>The texts of the runtime: the three pieces appended to \<open>baseRuntime\<close> and the
  entries of \<open>runtimeFunctions\<close>, character for character.\<close>

definition runtimeFunctions_isStuck :: string where
  \<open>runtimeFunctions_isStuck =
     ''let stuckCounter = 0;\<newline>'' @
     ''const isStuck = () => {\<newline>'' @
     ''    // The real time is not checked on every call for performance.\<newline>'' @
     ''    stuckCounter++;\<newline>'' @
     ''    if (stuckCounter === 100) {\<newline>'' @
     ''        stuckCounter = 0;\<newline>'' @
     ''        return globalState.thread.target.runtime.sequencer.timer.timeElapsed() > 500;\<newline>'' @
     ''    }\<newline>'' @
     ''    return false;\<newline>'' @
     ''}''\<close>

definition runtimeFunctions_startHats :: string where
  \<open>runtimeFunctions_startHats =
     ''const startHats = (requestedHat, optMatchFields) => {\<newline>'' @
     ''    const thread = globalState.thread;\<newline>'' @
     ''    const threads = thread.target.runtime.startHats(requestedHat, optMatchFields);\<newline>'' @
     ''    return threads;\<newline>'' @
     ''}''\<close>

definition runtimeFunctions_waitThreads :: string where
  \<open>runtimeFunctions_waitThreads =
     ''const waitThreads = function*(threads) {\<newline>'' @
     ''    const thread = globalState.thread;\<newline>'' @
     ''    const runtime = thread.target.runtime;\<newline>'' @
     ''\<newline>'' @
     ''    while (true) {\<newline>'' @
     ''        // determine whether any threads are running\<newline>'' @
     ''        let anyRunning = false;\<newline>'' @
     ''        for (let i = 0; i < threads.length; i++) {\<newline>'' @
     ''            if (runtime.threads.indexOf(threads[i]) !== -1) {\<newline>'' @
     ''                anyRunning = true;\<newline>'' @
     ''                break;\<newline>'' @
     ''            }\<newline>'' @
     ''        }\<newline>'' @
     ''        if (!anyRunning) {\<newline>'' @
     ''            // all threads are finished, can resume\<newline>'' @
     ''            return;\<newline>'' @
     ''        }\<newline>'' @
     ''\<newline>'' @
     ''        let allWaiting = true;\<newline>'' @
     ''        for (let i = 0; i < threads.length; i++) {\<newline>'' @
     ''            if (!runtime.isWaitingThread(threads[i])) {\<newline>'' @
     ''                allWaiting = false;\<newline>'' @
     ''                break;\<newline>'' @
     ''            }\<newline>'' @
     ''        }\<newline>'' @
     ''        if (allWaiting) {\<newline>'' @
     ''            thread.status = 3; // STATUS_YIELD_TICK\<newline>'' @
     ''        }\<newline>'' @
     ''\<newline>'' @
     ''        yield;\<newline>'' @
     ''    }\<newline>'' @
     ''}''\<close>

definition runtimeFunctions_executeInCompatibilityLayer :: string where
  \<open>runtimeFunctions_executeInCompatibilityLayer =
     ''let hasResumedFromPromise = false;\<newline>'' @
     ''const waitPromise = function*(promise) {\<newline>'' @
     ''    const thread = globalState.thread;\<newline>'' @
     ''    let returnValue;\<newline>'' @
     ''\<newline>'' @
     ''    promise\<newline>'' @
     ''        .then(value => {\<newline>'' @
     ''            returnValue = value;\<newline>'' @
     ''            thread.status = 0; // STATUS_RUNNING\<newline>'' @
     ''        })\<newline>'' @
     ''        .catch(error => {\<newline>'' @
     ''            thread.status = 0; // STATUS_RUNNING\<newline>'' @
     ''            globalState.log.warn('Promise rejected in compiled script:', error);\<newline>'' @
     ''        });\<newline>'' @
     ''\<newline>'' @
     ''    // enter STATUS_PROMISE_WAIT and yield\<newline>'' @
     ''    // this will stop script execution until the promise handlers reset the thread status\<newline>'' @
     ''    thread.status = 1; // STATUS_PROMISE_WAIT\<newline>'' @
     ''    yield;\<newline>'' @
     ''\<newline>'' @
     ''    return returnValue;\<newline>'' @
     ''};\<newline>'' @
     ''const executeInCompatibilityLayer = function*(inputs, blockFunction, useFlags) {\<newline>'' @
     ''    const thread = globalState.thread;\<newline>'' @
     ''\<newline>'' @
     ''    // reset the stackframe\<newline>'' @
     ''    // we only ever use one stackframe at a time, so this shouldn't cause issues\<newline>'' @
     ''    thread.stackFrames[thread.stackFrames.length - 1].reuse(thread.warp > 0);\<newline>'' @
     ''\<newline>'' @
     ''    const executeBlock = () => {\<newline>'' @
     ''        const compatibilityLayerBlockUtility = globalState.compatibilityLayerBlockUtility;\<newline>'' @
     ''        compatibilityLayerBlockUtility.thread = thread;\<newline>'' @
     ''        compatibilityLayerBlockUtility.sequencer = thread.target.runtime.sequencer;\<newline>'' @
     ''        return blockFunction(inputs, compatibilityLayerBlockUtility);\<newline>'' @
     ''    };\<newline>'' @
     ''\<newline>'' @
     ''    const isPromise = value => (\<newline>'' @
     ''        // see engine/execute.js\<newline>'' @
     ''        value !== null &&\<newline>'' @
     ''        typeof value === 'object' &&\<newline>'' @
     ''        typeof value.then === 'function'\<newline>'' @
     ''    );\<newline>'' @
     ''\<newline>'' @
     ''    let returnValue = executeBlock();\<newline>'' @
     ''\<newline>'' @
     ''    if (isPromise(returnValue)) {\<newline>'' @
     ''        returnValue = yield* waitPromise(returnValue);\<newline>'' @
     ''        if (useFlags) {\<newline>'' @
     ''            hasResumedFromPromise = true;\<newline>'' @
     ''        }\<newline>'' @
     ''        return returnValue;\<newline>'' @
     ''    }\<newline>'' @
     ''\<newline>'' @
     ''    while (thread.status === 2 /* STATUS_YIELD */ || thread.status === 3 /* STATUS_YIELD_TICK */) {\<newline>'' @
     ''        // Yielded threads will run next iteration.\<newline>'' @
     ''        if (thread.status === 2 /* STATUS_YIELD */) {\<newline>'' @
     ''            thread.status = 0; // STATUS_RUNNING\<newline>'' @
     ''            // Yield back to the event loop when stuck or not in warp mode.\<newline>'' @
     ''            if (thread.warp === 0 || isStuck()) {\<newline>'' @
     ''                yield;\<newline>'' @
     ''            }\<newline>'' @
     ''        } else {\<newline>'' @
     ''            // status is STATUS_YIELD_TICK, always yield to the event loop\<newline>'' @
     ''            yield;\<newline>'' @
     ''        }\<newline>'' @
     ''\<newline>'' @
     ''        returnValue = executeBlock();\<newline>'' @
     ''\<newline>'' @
     ''        if (isPromise(returnValue)) {\<newline>'' @
     ''            returnValue = yield* waitPromise(returnValue);\<newline>'' @
     ''            if (useFlags) {\<newline>'' @
     ''                hasResumedFromPromise = true;\<newline>'' @
     ''            }\<newline>'' @
     ''            return returnValue;\<newline>'' @
     ''        }\<newline>'' @
     ''    }\<newline>'' @
     ''\<newline>'' @
     ''    // todo: do we have to do anything extra if status is STATUS_DONE?\<newline>'' @
     ''\<newline>'' @
     ''    return returnValue;\<newline>'' @
     ''}''\<close>

definition runtimeFunctions_callAddonBlock :: string where
  \<open>runtimeFunctions_callAddonBlock =
     ''const callAddonBlock = function*(procedureCode, blockId, args) {\<newline>'' @
     ''    const thread = globalState.thread;\<newline>'' @
     ''    const addonBlock = thread.target.runtime.getAddonBlock(procedureCode);\<newline>'' @
     ''    if (addonBlock) {\<newline>'' @
     ''        const target = thread.target;\<newline>'' @
     ''        addonBlock.callback(args, {\<newline>'' @
     ''            // Shim enough of BlockUtility to make addons work\<newline>'' @
     ''            peekStack () {\<newline>'' @
     ''                return blockId;\<newline>'' @
     ''            },\<newline>'' @
     ''            target\<newline>'' @
     ''        });\<newline>'' @
     ''        if (thread.status === 1 /* STATUS_PROMISE_WAIT */) {\<newline>'' @
     ''            yield;\<newline>'' @
     ''        }\<newline>'' @
     ''    }\<newline>'' @
     ''}''\<close>

definition runtimeFunctions_retire :: string where
  \<open>runtimeFunctions_retire =
     ''const retire = () => {\<newline>'' @
     ''    const thread = globalState.thread;\<newline>'' @
     ''    thread.target.runtime.sequencer.retireThread(thread);\<newline>'' @
     ''}''\<close>

definition runtimeFunctions_toBoolean :: string where
  \<open>runtimeFunctions_toBoolean =
     ''const toBoolean = value => {\<newline>'' @
     ''    if (typeof value === 'boolean') {\<newline>'' @
     ''        return value;\<newline>'' @
     ''    }\<newline>'' @
     ''    if (typeof value === 'string') {\<newline>'' @
     ''        if (value === '' @ [CHR 0x27, CHR 0x27] @ '' || value === '0' || value.toLowerCase() === 'false') {\<newline>'' @
     ''            return false;\<newline>'' @
     ''        }\<newline>'' @
     ''        return true;\<newline>'' @
     ''    }\<newline>'' @
     ''    return !!value;\<newline>'' @
     ''}''\<close>

definition baseRuntime_isWhiteSpace :: string where
  \<open>baseRuntime_isWhiteSpace =
     ''\<newline>'' @
     ''const isWhiteSpace = val => (\<newline>'' @
     ''    val === null || (typeof val === 'string' && val.trim().length === 0)\<newline>'' @
     '');''\<close>

definition baseRuntime_compareEqual :: string where
  \<open>baseRuntime_compareEqual =
     ''\<newline>'' @
     ''const compareEqual = (v1, v2) => {\<newline>'' @
     ''    let n1 = +v1;\<newline>'' @
     ''    let n2 = +v2;\<newline>'' @
     ''    if (n1 === 0 && isWhiteSpace(v1)) {\<newline>'' @
     ''        n1 = NaN;\<newline>'' @
     ''    } else if (n2 === 0 && isWhiteSpace(v2)) {\<newline>'' @
     ''        n2 = NaN;\<newline>'' @
     ''    }\<newline>'' @
     ''    if (isNaN(n1) || isNaN(n2)) {\<newline>'' @
     ''        const s1 = ('' @ [CHR 0x27, CHR 0x27] @ '' + v1).toLowerCase();\<newline>'' @
     ''        const s2 = ('' @ [CHR 0x27, CHR 0x27] @ '' + v2).toLowerCase();\<newline>'' @
     ''        return s1 === s2;\<newline>'' @
     ''    }\<newline>'' @
     ''    return n1 === n2;\<newline>'' @
     ''};''\<close>

definition runtimeFunctions_compareGreaterThan :: string where
  \<open>runtimeFunctions_compareGreaterThan =
     ''const compareGreaterThan = (v1, v2) => {\<newline>'' @
     ''    let n1 = +v1;\<newline>'' @
     ''    let n2 = +v2;\<newline>'' @
     ''    if (n1 === 0 && isWhiteSpace(v1)) {\<newline>'' @
     ''        n1 = NaN;\<newline>'' @
     ''    } else if (n2 === 0 && isWhiteSpace(v2)) {\<newline>'' @
     ''        n2 = NaN;\<newline>'' @
     ''    }\<newline>'' @
     ''    if (isNaN(n1) || isNaN(n2)) {\<newline>'' @
     ''        const s1 = ('' @ [CHR 0x27, CHR 0x27] @ '' + v1).toLowerCase();\<newline>'' @
     ''        const s2 = ('' @ [CHR 0x27, CHR 0x27] @ '' + v2).toLowerCase();\<newline>'' @
     ''        return s1 > s2;\<newline>'' @
     ''    }\<newline>'' @
     ''    return n1 > n2;\<newline>'' @
     ''}''\<close>

definition runtimeFunctions_compareLessThan :: string where
  \<open>runtimeFunctions_compareLessThan =
     ''const compareLessThan = (v1, v2) => {\<newline>'' @
     ''    let n1 = +v1;\<newline>'' @
     ''    let n2 = +v2;\<newline>'' @
     ''    if (n1 === 0 && isWhiteSpace(v1)) {\<newline>'' @
     ''        n1 = NaN;\<newline>'' @
     ''    } else if (n2 === 0 && isWhiteSpace(v2)) {\<newline>'' @
     ''        n2 = NaN;\<newline>'' @
     ''    }\<newline>'' @
     ''    if (isNaN(n1) || isNaN(n2)) {\<newline>'' @
     ''        const s1 = ('' @ [CHR 0x27, CHR 0x27] @ '' + v1).toLowerCase();\<newline>'' @
     ''        const s2 = ('' @ [CHR 0x27, CHR 0x27] @ '' + v2).toLowerCase();\<newline>'' @
     ''        return s1 < s2;\<newline>'' @
     ''    }\<newline>'' @
     ''    return n1 < n2;\<newline>'' @
     ''}''\<close>

definition runtimeFunctions_randomInt :: string where
  \<open>runtimeFunctions_randomInt =
     ''const randomInt = (low, high) => low + Math.floor(Math.random() * ((high + 1) - low))''\<close>

definition runtimeFunctions_randomFloat :: string where
  \<open>runtimeFunctions_randomFloat =
     ''const randomFloat = (low, high) => (Math.random() * (high - low)) + low''\<close>

definition runtimeFunctions_timer :: string where
  \<open>runtimeFunctions_timer =
     ''const timer = () => {\<newline>'' @
     ''    const t = new globalState.Timer({\<newline>'' @
     ''        now: () => globalState.thread.target.runtime.currentMSecs\<newline>'' @
     ''    });\<newline>'' @
     ''    t.start();\<newline>'' @
     ''    return t;\<newline>'' @
     ''}''\<close>

definition runtimeFunctions_daysSince2000 :: string where
  \<open>runtimeFunctions_daysSince2000 =
     ''const daysSince2000 = () => (Date.now() - 946684800000) / (24 * 60 * 60 * 1000)''\<close>

definition runtimeFunctions_distance :: string where
  \<open>runtimeFunctions_distance =
     ''const distance = menu => {\<newline>'' @
     ''    const thread = globalState.thread;\<newline>'' @
     ''    if (thread.target.isStage) return 10000;\<newline>'' @
     ''\<newline>'' @
     ''    let targetX = 0;\<newline>'' @
     ''    let targetY = 0;\<newline>'' @
     ''    if (menu === '_mouse_') {\<newline>'' @
     ''        targetX = thread.target.runtime.ioDevices.mouse.getScratchX();\<newline>'' @
     ''        targetY = thread.target.runtime.ioDevices.mouse.getScratchY();\<newline>'' @
     ''    } else {\<newline>'' @
     ''        const distTarget = thread.target.runtime.getSpriteTargetByName(menu);\<newline>'' @
     ''        if (!distTarget) return 10000;\<newline>'' @
     ''        targetX = distTarget.x;\<newline>'' @
     ''        targetY = distTarget.y;\<newline>'' @
     ''    }\<newline>'' @
     ''\<newline>'' @
     ''    const dx = thread.target.x - targetX;\<newline>'' @
     ''    const dy = thread.target.y - targetY;\<newline>'' @
     ''    return Math.sqrt((dx * dx) + (dy * dy));\<newline>'' @
     ''}''\<close>

definition baseRuntime_listIndex :: string where
  \<open>baseRuntime_listIndex =
     ''\<newline>'' @
     ''const listIndex = (index, length) => {\<newline>'' @
     ''    if (typeof index !== 'number') {\<newline>'' @
     ''        if (index === 'last') {\<newline>'' @
     ''            if (length > 0) {\<newline>'' @
     ''                return length - 1;\<newline>'' @
     ''            }\<newline>'' @
     ''            return -1;\<newline>'' @
     ''        } else if (index === 'random' || index === '*') {\<newline>'' @
     ''            if (length > 0) {\<newline>'' @
     ''                return (Math.random() * length) | 0;\<newline>'' @
     ''            }\<newline>'' @
     ''            return -1;\<newline>'' @
     ''        }\<newline>'' @
     ''        index = +index || 0;\<newline>'' @
     ''    }\<newline>'' @
     ''    index = index | 0;\<newline>'' @
     ''    if (index < 1 || index > length) {\<newline>'' @
     ''        return -1;\<newline>'' @
     ''    }\<newline>'' @
     ''    return index - 1;\<newline>'' @
     ''};''\<close>

definition runtimeFunctions_listGet :: string where
  \<open>runtimeFunctions_listGet =
     ''const listGet = (list, idx) => {\<newline>'' @
     ''    const index = listIndex(idx, list.length);\<newline>'' @
     ''    if (index === -1) {\<newline>'' @
     ''        return '' @ [CHR 0x27, CHR 0x27] @ '';\<newline>'' @
     ''    }\<newline>'' @
     ''    return list[index];\<newline>'' @
     ''}''\<close>

definition runtimeFunctions_listReplace :: string where
  \<open>runtimeFunctions_listReplace =
     ''const listReplace = (list, idx, value) => {\<newline>'' @
     ''    const index = listIndex(idx, list.value.length);\<newline>'' @
     ''    if (index === -1) {\<newline>'' @
     ''        return;\<newline>'' @
     ''    }\<newline>'' @
     ''    list.value[index] = value;\<newline>'' @
     ''    list._monitorUpToDate = false;\<newline>'' @
     ''}''\<close>

definition runtimeFunctions_listInsert :: string where
  \<open>runtimeFunctions_listInsert =
     ''const listInsert = (list, idx, value) => {\<newline>'' @
     ''    const index = listIndex(idx, list.value.length + 1);\<newline>'' @
     ''    if (index === -1) {\<newline>'' @
     ''        return;\<newline>'' @
     ''    }\<newline>'' @
     ''    list.value.splice(index, 0, value);\<newline>'' @
     ''    list._monitorUpToDate = false;\<newline>'' @
     ''}''\<close>

definition runtimeFunctions_listDelete :: string where
  \<open>runtimeFunctions_listDelete =
     ''const listDelete = (list, idx) => {\<newline>'' @
     ''    if (idx === 'all') {\<newline>'' @
     ''        list.value = [];\<newline>'' @
     ''        return;\<newline>'' @
     ''    }\<newline>'' @
     ''    const index = listIndex(idx, list.value.length);\<newline>'' @
     ''    if (index === -1) {\<newline>'' @
     ''        return;\<newline>'' @
     ''    }\<newline>'' @
     ''    list.value.splice(index, 1);\<newline>'' @
     ''    list._monitorUpToDate = false;\<newline>'' @
     ''}''\<close>

definition runtimeFunctions_listContains :: string where
  \<open>runtimeFunctions_listContains =
     ''const listContains = (list, item) => {\<newline>'' @
     ''    // TODO: evaluate whether indexOf is worthwhile here\<newline>'' @
     ''    if (list.value.indexOf(item) !== -1) {\<newline>'' @
     ''        return true;\<newline>'' @
     ''    }\<newline>'' @
     ''    for (let i = 0; i < list.value.length; i++) {\<newline>'' @
     ''        if (compareEqual(list.value[i], item)) {\<newline>'' @
     ''            return true;\<newline>'' @
     ''        }\<newline>'' @
     ''    }\<newline>'' @
     ''    return false;\<newline>'' @
     ''}''\<close>

definition runtimeFunctions_listIndexOf :: string where
  \<open>runtimeFunctions_listIndexOf =
     ''const listIndexOf = (list, item) => {\<newline>'' @
     ''    for (let i = 0; i < list.value.length; i++) {\<newline>'' @
     ''        if (compareEqual(list.value[i], item)) {\<newline>'' @
     ''            return i + 1;\<newline>'' @
     ''        }\<newline>'' @
     ''    }\<newline>'' @
     ''    return 0;\<newline>'' @
     ''}''\<close>

definition runtimeFunctions_listContents :: string where
  \<open>runtimeFunctions_listContents =
     ''const listContents = list => {\<newline>'' @
     ''    for (let i = 0; i < list.value.length; i++) {\<newline>'' @
     ''        const listItem = list.value[i];\<newline>'' @
     ''        // this is an intentional break from what scratch 3 does to address our automatic string -> number conversions\<newline>'' @
     ''        // it fixes more than it breaks\<newline>'' @
     ''        if ((listItem + '' @ [CHR 0x27, CHR 0x27] @ '').length !== 1) {\<newline>'' @
     ''            return list.value.join(' ');\<newline>'' @
     ''        }\<newline>'' @
     ''    }\<newline>'' @
     ''    return list.value.join('' @ [CHR 0x27, CHR 0x27] @ '');\<newline>'' @
     ''}''\<close>

definition runtimeFunctions_colorToList :: string where
  \<open>runtimeFunctions_colorToList =
     ''const colorToList = color => globalState.Cast.toRgbColorList(color)''\<close>

definition runtimeFunctions_mod :: string where
  \<open>runtimeFunctions_mod =
     ''const mod = (n, modulus) => {\<newline>'' @
     ''    let result = n % modulus;\<newline>'' @
     ''    if (result / modulus < 0) result += modulus;\<newline>'' @
     ''    return result;\<newline>'' @
     ''}''\<close>

text \<open>\<^verbatim>\<open>let baseRuntime = '';\<close> followed by the three \<^verbatim>\<open>baseRuntime += ...\<close>.\<close>

definition baseRuntime :: string where
  "baseRuntime = [] @ baseRuntime_isWhiteSpace @ baseRuntime_compareEqual @ baseRuntime_listIndex"

text \<open>The object \<open>runtimeFunctions\<close>; \<open>Object.keys\<close> lists its keys in the order in which
  they were assigned.\<close>

definition runtimeFunctions :: "(string \<times> string) list" where
  "runtimeFunctions =
     [(''isStuck'', runtimeFunctions_isStuck),
      (''startHats'', runtimeFunctions_startHats),
      (''waitThreads'', runtimeFunctions_waitThreads),
      (''executeInCompatibilityLayer'', runtimeFunctions_executeInCompatibilityLayer),
      (''callAddonBlock'', runtimeFunctions_callAddonBlock),
      (''retire'', runtimeFunctions_retire),
      (''toBoolean'', runtimeFunctions_toBoolean),
      (''compareGreaterThan'', runtimeFunctions_compareGreaterThan),
      (''compareLessThan'', runtimeFunctions_compareLessThan),
      (''randomInt'', runtimeFunctions_randomInt),
      (''randomFloat'', runtimeFunctions_randomFloat),
      (''timer'', runtimeFunctions_timer),
      (''daysSince2000'', runtimeFunctions_daysSince2000),
      (''distance'', runtimeFunctions_distance),
      (''listGet'', runtimeFunctions_listGet),
      (''listReplace'', runtimeFunctions_listReplace),
      (''listInsert'', runtimeFunctions_listInsert),
      (''listDelete'', runtimeFunctions_listDelete),
      (''listContains'', runtimeFunctions_listContains),
      (''listIndexOf'', runtimeFunctions_listIndexOf),
      (''listContents'', runtimeFunctions_listContents),
      (''colorToList'', runtimeFunctions_colorToList),
      (''mod'', runtimeFunctions_mod)]"

text \<open>\<open>String.prototype.includes\<close>: the second string occurs in the first.\<close>

fun str_includes :: "string \<Rightarrow> string \<Rightarrow> bool" where
  "str_includes [] t = (t = [])"
| "str_includes (c # s) t = (prefix t (c # s) \<or> str_includes s t)"

text \<open>
  \<^verbatim>\<open>const insertRuntime = source => {
      let result = baseRuntime;
      for (const functionName of Object.keys(runtimeFunctions)) {
          if (source.includes(functionName)) {
              result += `${runtimeFunctions[functionName]};`;
          }
      }
      result += `return ${source}`;
      return result;
  };\<close>
\<close>

definition insertRuntime :: "string \<Rightarrow> string" where
  "insertRuntime source =
     foldl (\<lambda>result (functionName, text).
              if str_includes source functionName then result @ text @ '';'' else result)
       baseRuntime runtimeFunctions
     @ ''return '' @ source"

section \<open>\<open>EventEmitter\<close>\<close>

text \<open>
  \<^verbatim>\<open>export default class EventEmitter{
      private listerMap;
      constructor(){ this.listerMap = []; }
      on(eventName: string, listener: Function){
          this.listerMap.push({eventName, listener});
      }
      emit(eventName: string, ...param){
          const emitter = this.listerMap.indexOf(eventName);
          emitter.listener(param);
      }
  }\<close>
  The values that meet in \<open>indexOf\<close>: the records that \<open>on\<close> pushed and the string that
  \<open>emit\<close> searches for. \<open>indexOf\<close> compares with \<open>===\<close>, under which a record and a string
  are never equal. Listeners are values of a type \<open>'f\<close>; the state holds the array and the
  calls made to listeners so far.
\<close>

datatype 'f ee_value = EString string | ERecord string 'f

datatype js_error = TypeError

record 'f emitter =
  listerMap :: "(string \<times> 'f) list"
  calls :: "('f \<times> jsval list) list"

definition EventEmitter_new :: "'f emitter" where
  "EventEmitter_new = \<lparr>listerMap = [], calls = []\<rparr>"

definition on :: "string \<Rightarrow> 'f \<Rightarrow> 'f emitter \<Rightarrow> 'f emitter" where
  "on eventName listener em = em\<lparr>listerMap := listerMap em @ [(eventName, listener)]\<rparr>"

text \<open>\<open>emitter.listener\<close> where \<open>emitter\<close> is a number: the property is looked up on
  \<open>Number.prototype\<close>, which has none of that name, so the result is \<open>undefined\<close>
  (\<open>None\<close>).\<close>

definition number_listener :: "int \<Rightarrow> 'f option" where
  "number_listener n = None"

text \<open>Calling \<open>undefined\<close> throws a \<open>TypeError\<close>; calling a function records the call.\<close>

definition emit :: "string \<Rightarrow> jsval list \<Rightarrow> 'f emitter \<Rightarrow> js_error + 'f emitter" where
  "emit eventName param em =
     (let emitter = indexOf (map (\<lambda>(n, l). ERecord n l) (listerMap em)) (EString eventName)
      in case number_listener emitter of
           None \<Rightarrow> Inl TypeError
         | Some f \<Rightarrow> Inr (em\<lparr>calls := calls em @ [(f, param)]\<rparr>))"

section \<open>Properties of the comparison \<open>compareEqual\<close>\<close>

lemma isWhiteSpace_to_number: "isWhiteSpace v \<Longrightarrow> to_number v = Fin 0"
  by (cases v) (auto simp: isWhiteSpace_def to_number_def string_to_number_def)

text \<open>The \<open>else if\<close> does not show in the result: whichever operand was turned into
  \<open>NaN\<close>, the strings are compared.\<close>

lemma compareEqual_cases:
  "compareEqual v1 v2 =
     (if isNaN (to_number v1) \<or> isWhiteSpace v1 \<or> isNaN (to_number v2) \<or> isWhiteSpace v2
      then toLowerCase (to_string v1) = toLowerCase (to_string v2)
      else to_number v1 = to_number v2)"
  by (auto simp: compareEqual_def Let_def isNaN_def num_strict_eq_def isWhiteSpace_to_number)

lemma lower_char_zero: "lower_char c = CHR ''0'' \<Longrightarrow> c = CHR ''0''"
proof -
  assume a: "lower_char c = CHR ''0''"
  let ?n = "of_char c :: nat"
  show ?thesis
  proof (cases "(65 \<le> ?n \<and> ?n \<le> 90) \<or> (192 \<le> ?n \<and> ?n \<le> 222 \<and> ?n \<noteq> 215)")
    case True
    then have "lower_char c = char_of (?n + 32)" by (simp add: lower_char_def Let_def)
    with a have "(of_char (char_of (?n + 32) :: char) :: nat) = of_char CHR ''0''" by simp
    then have "(?n + 32) mod 256 = 48" by simp
    moreover from True have "?n + 32 < 256" by auto
    ultimately have "?n = 16" by simp
    with True show ?thesis by simp
  next
    case False
    then have "lower_char c = c" by (auto simp: lower_char_def Let_def)
    with a show ?thesis by simp
  qed
qed

lemma trim_zero: "trim ''0'' \<noteq> []"
  by (simp add: trim_def is_js_space_def)

lemma lower_zero_str: "toLowerCase (to_string (JNum (Fin 0))) = ''0''"
  by code_simp

lemma lower_null_str: "toLowerCase (to_string JNull) \<noteq> ''0''"
  by code_simp

text \<open>The purpose of the carve-out: a white-space operand is never equal to the number
  0, although it coerces to 0.\<close>

lemma whitespace_not_zero: "isWhiteSpace v \<Longrightarrow> \<not> compareEqual v (JNum (Fin 0))"
proof -
  assume w: "isWhiteSpace v"
  have "toLowerCase (to_string v) \<noteq> ''0''"
  proof (cases v)
    case (JStr s)
    with w have t: "trim s = []" by (simp add: isWhiteSpace_def)
    have "toLowerCase s \<noteq> ''0''"
    proof
      assume "toLowerCase s = ''0''"
      then obtain c where s: "s = [c]" and "lower_char c = CHR ''0''"
        by (auto simp: toLowerCase_def map_eq_Cons_conv)
      with lower_char_zero have "s = ''0''" by simp
      with t trim_zero show False by simp
    qed
    with JStr show ?thesis by (simp add: to_string_def)
  next
    case JNull
    then show ?thesis by (simp add: lower_null_str)
  qed (use w in \<open>simp_all add: isWhiteSpace_def\<close>)
  with w show ?thesis
    by (simp add: compareEqual_cases lower_zero_str)
qed

text \<open>
  C1, as the source has it. \<open>compareEqual\<close> coerces both operands to numbers; an operand
  that is \<open>null\<close> or a white-space-only string (it coerces to 0) counts as not-a-number; if
  either operand is not-a-number the lower-cased strings are compared, otherwise the
  numbers. A white-space operand is therefore never equal to the number 0. The literal
  cases: \<open>compareEqual(" ", 0)\<close> is false (\<open>" "\<close> against \<open>"0"\<close>), \<open>compareEqual("0", 0)\<close> is
  true (numbers), and \<open>compareEqual(" ", "")\<close> is false (\<open>" "\<close> against \<open>""\<close>: the strings are
  compared as they are, untrimmed).
\<close>

theorem compareEqual_coercion:
  "(compareEqual v1 v2 =
      (if isNaN (to_number v1) \<or> isWhiteSpace v1 \<or> isNaN (to_number v2) \<or> isWhiteSpace v2
       then toLowerCase (to_string v1) = toLowerCase (to_string v2)
       else to_number v1 = to_number v2))
   \<and> (isWhiteSpace v1 \<longrightarrow> \<not> compareEqual v1 (JNum (Fin 0)))
   \<and> \<not> compareEqual (JStr '' '') (JNum (Fin 0))
   \<and> compareEqual (JStr ''0'') (JNum (Fin 0))
   \<and> \<not> compareEqual (JStr '' '') (JStr [])"
proof -
  have "\<not> compareEqual (JStr '' '') (JNum (Fin 0))" by code_simp
  moreover have "compareEqual (JStr ''0'') (JNum (Fin 0))" by code_simp
  moreover have "\<not> compareEqual (JStr '' '') (JStr [])" by code_simp
  ultimately show ?thesis
    using compareEqual_cases [of v1 v2] whitespace_not_zero [of v1] by blast
qed

theorem compareEqual_coercion_witness:
  "isWhiteSpace (JStr ''  '') \<and> \<not> compareEqual (JStr ''  '') (JNum (Fin 0))"
proof -
  have w: "isWhiteSpace (JStr ''  '')"
    by (simp add: isWhiteSpace_def trim_def is_js_space_def)
  with compareEqual_coercion [of "JStr ''  ''" "JNum (Fin 0)"] show ?thesis
    by blast
qed

text \<open>C1 as the specification words it fails: it gives \<open>compareEqual(" ", 0)\<close> and
  \<open>compareEqual(" ", "")\<close> as true.\<close>

theorem compareEqual_literals_counterexample:
  "\<not> compareEqual (JStr '' '') (JNum (Fin 0)) \<and> \<not> compareEqual (JStr '' '') (JStr [])"
  by code_simp

section \<open>Properties of \<open>listIndex\<close>\<close>

lemma to_int32_or_zero: "to_int32 (or_zero n) = to_int32 n"
  by (simp add: or_zero_def to_int32_def truncate_rat_def)

lemma js_bitor_zero: "js_bitor n (Fin 0) = sint (to_int32 n)"
  by (simp add: js_bitor_def to_int32_def truncate_rat_def)

lemma to_int32_of_int: "to_int32 (Fin (of_int k)) = word_of_int k"
  by (simp add: to_int32_def truncate_rat_def)

lemma sint_small: "- (2 ^ 31) \<le> k \<Longrightarrow> k < 2 ^ 31 \<Longrightarrow> sint (word_of_int k :: 32 word) = k"
  by (simp add: sint_sbintrunc' signed_take_bit_int_eq_self)

text \<open>For an index that is none of the three symbolic ones, the result is decided by the
  32-bit integer value of the index.\<close>

lemma listIndex_plain:
  "idx \<noteq> JStr ''last'' \<Longrightarrow> idx \<noteq> JStr ''random'' \<Longrightarrow> idx \<noteq> JStr ''*'' \<Longrightarrow>
   listIndex rnd idx len =
     (let i = sint (to_int32 (to_number idx)) in if i < 1 \<or> i > len then - 1 else i - 1)"
  by (cases idx)
    (simp_all add: listIndex_def index_in_range_def js_bitor_zero to_int32_or_zero to_number_def Let_def)

lemma listIndex_len0: "listIndex rnd idx 0 = - 1"
  by (cases idx) (auto simp: listIndex_def index_in_range_def Let_def)

text \<open>
  C4, as the source has it. With length 0 every index gives -1. An index other than
  \<open>"last"\<close>, \<open>"random"\<close> and \<open>"*"\<close> is coerced to a number and truncated towards zero:
  if the truncated value lies in the signed 32-bit range and outside \<open>[1, length]\<close>, or
  if the number is \<open>NaN\<close> or infinite, the result is -1. So every integer index of the
  signed 32-bit range outside \<open>[1, length]\<close> gives -1. \<open>"last"\<close> with a positive length
  gives \<open>length - 1\<close>. (Nothing is said here about indices whose truncated value is
  beyond the signed 32-bit range, where \<open>| 0\<close> wraps around.)
\<close>

theorem listIndex_out_of_range:
  "listIndex rnd idx 0 = - 1
   \<and> (idx \<noteq> JStr ''last'' \<and> idx \<noteq> JStr ''random'' \<and> idx \<noteq> JStr ''*''
        \<and> to_number idx = Fin q
        \<and> - (2 ^ 31) \<le> truncate_rat q \<and> truncate_rat q < 2 ^ 31
        \<and> (truncate_rat q < 1 \<or> truncate_rat q > len)
      \<longrightarrow> listIndex rnd idx len = - 1)
   \<and> (idx \<noteq> JStr ''last'' \<and> idx \<noteq> JStr ''random'' \<and> idx \<noteq> JStr ''*''
        \<and> (to_number idx = NaN \<or> to_number idx = PosInf \<or> to_number idx = NegInf)
      \<longrightarrow> listIndex rnd idx len' = - 1)
   \<and> (- (2 ^ 31) \<le> k \<and> k < 2 ^ 31 \<and> (k < 1 \<or> k > len)
      \<longrightarrow> listIndex rnd (JNum (Fin (of_int k))) len = - 1)
   \<and> (len > 0 \<longrightarrow> listIndex rnd (JStr ''last'') len = len - 1)"
proof -
  have a: "listIndex rnd idx len = - 1"
    if "idx \<noteq> JStr ''last''" "idx \<noteq> JStr ''random''" "idx \<noteq> JStr ''*''"
       "to_number idx = Fin q" "- (2 ^ 31) \<le> truncate_rat q" "truncate_rat q < 2 ^ 31"
       "truncate_rat q < 1 \<or> truncate_rat q > len"
  proof -
    from that have "sint (to_int32 (to_number idx)) = truncate_rat q"
      by (simp add: to_int32_def sint_small)
    with that show ?thesis by (auto simp: listIndex_plain Let_def)
  qed
  have b: "listIndex rnd idx len' = - 1"
    if "idx \<noteq> JStr ''last''" "idx \<noteq> JStr ''random''" "idx \<noteq> JStr ''*''"
       "to_number idx = NaN \<or> to_number idx = PosInf \<or> to_number idx = NegInf"
  proof -
    from that have "sint (to_int32 (to_number idx)) = 0"
      by (auto simp: to_int32_def)
    with that show ?thesis by (simp add: listIndex_plain Let_def)
  qed
  have c: "listIndex rnd (JNum (Fin (of_int k))) len = - 1"
    if "- (2 ^ 31) \<le> k" "k < 2 ^ 31" "k < 1 \<or> k > len"
    using that
    by (auto simp: listIndex_def index_in_range_def js_bitor_zero to_int32_of_int sint_small Let_def)
  have d: "listIndex rnd (JStr ''last'') len = len - 1" if "len > 0"
    using that by (simp add: listIndex_def)
  from a b c d listIndex_len0 [of rnd idx] show ?thesis by blast
qed

theorem listIndex_out_of_range_witness:
  "listIndex 0 (JNum (Fin (15 / 2))) 0 = - 1
   \<and> listIndex 0 (JNum (Fin (15 / 2))) 5 = - 1
   \<and> listIndex 0 (JStr ''abc'') 5 = - 1
   \<and> listIndex 0 (JNum (Fin 7)) 5 = - 1
   \<and> listIndex 0 (JStr ''last'') 5 = 4"
proof -
  have n: "to_number (JStr ''abc'') = NaN" by code_simp
  have t: "truncate_rat (15 / 2) = 7" by code_simp
  from listIndex_out_of_range
         [where rnd = 0 and idx = "JNum (Fin (15 / 2))" and q = "15 / 2" and len = 5
            and k = 7 and len' = 5]
       listIndex_out_of_range
         [where rnd = 0 and idx = "JStr ''abc''" and q = 0 and len = 5 and k = 7 and len' = 5]
       n t
  show ?thesis by (simp add: to_number_def)
qed

text \<open>C4 as the specification words it fails: \<open>4294967297\<close> is outside \<open>[1, 1]\<close> and
  \<open>5.5\<close> is outside \<open>[1, 5]\<close>, yet \<open>4294967297 | 0\<close> is 1 and \<open>5.5 | 0\<close> is 5, and both
  indices are accepted.\<close>

theorem listIndex_wraps_counterexample:
  "listIndex 0 (JNum (Fin 4294967297)) 1 = 0 \<and> listIndex 0 (JNum (Fin (11 / 2))) 5 = 4"
  by code_simp

section \<open>Properties of \<open>mod\<close>\<close>

lemma binade_le:
  assumes "0 < a"
  shows "2 powi (binade a) \<le> a"
proof -
  obtain p d where pd: "quotient_of a = (p, d)" by (cases "quotient_of a")
  have d: "0 < d" using quotient_of_denom_pos [OF pd] .
  have a: "a = of_int p / of_int d" using quotient_of_div [OF pd] .
  have p: "0 < p" using assms d by (simp add: a zero_less_divide_iff)
  define c where "c = bitlen p - bitlen d"
  show ?thesis
  proof (cases "2 powi c \<le> a")
    case True
    then show ?thesis by (simp add: binade_def pd c_def)
  next
    case False
    have bp1: "1 \<le> bitlen p" using p bitlen_eq_zero_iff [of p] bitlen_nonneg [of p] by linarith
    have "(2::int) ^ nat (bitlen p - 1) \<le> p" using bitlen_bounds [OF p] by simp
    then have "(of_int ((2::int) ^ nat (bitlen p - 1)) :: rat) \<le> of_int p"
      by (simp only: of_int_le_iff)
    then have e1: "(2::rat) powi (bitlen p - 1) \<le> of_int p"
      using bp1 by (simp add: power_int_nonneg_exp)
    have "d < 2 ^ nat (bitlen d)" using bitlen_bounds [OF d] by simp
    then have "(of_int d :: rat) < of_int ((2::int) ^ nat (bitlen d))"
      by (simp only: of_int_less_iff)
    then have e2: "(of_int d :: rat) < 2 powi (bitlen d)"
      using bitlen_nonneg [of d] by (simp add: power_int_nonneg_exp)
    have c1: "c - 1 = (bitlen p - 1) - bitlen d" by (simp add: c_def)
    have "(2::rat) powi ((bitlen p - 1) - bitlen d) = 2 powi (bitlen p - 1) / 2 powi (bitlen d)"
      by (rule power_int_diff) simp
    then have "(2::rat) powi (c - 1) = 2 powi (bitlen p - 1) / 2 powi (bitlen d)"
      by (simp only: c1)
    also have "\<dots> \<le> of_int p / 2 powi (bitlen d)"
      using e1 by (simp add: divide_right_mono)
    also have "\<dots> \<le> of_int p / of_int d"
      using e2 p d by (intro divide_left_mono) auto
    finally have "2 powi (c - 1) \<le> a" by (simp add: a)
    with False show ?thesis by (simp add: binade_def pd c_def)
  qed
qed

lemma round_even_of_int: "round_even (of_int k) = k"
  by (simp add: round_even_def)

lemma round_even_ge_1:
  assumes "1 / 2 < x"
  shows "1 \<le> round_even x"
proof -
  have f0: "0 \<le> \<lfloor>x\<rfloor>" using assms by simp
  show ?thesis
  proof (cases "\<lfloor>x\<rfloor> = 0")
    case True
    with assms show ?thesis by (simp add: round_even_def)
  next
    case False
    with f0 have "1 \<le> \<lfloor>x\<rfloor>" by linarith
    then show ?thesis by (auto simp: round_even_def Let_def)
  qed
qed

lemma round_even_small:
  assumes "0 \<le> x" "x < 1 / 2"
  shows "round_even x = 0"
proof -
  from assms have "\<lfloor>x\<rfloor> = 0" by (simp add: floor_eq_iff)
  with assms show ?thesis by (simp add: round_even_def)
qed

lemma round_double_minus: "round_double (- q) = js_neg (round_double q)"
  by (simp add: round_double_def js_neg_def Let_def)

lemma half_ulp: "(2::rat) powi (- 1075) = 2 powi (- 1074) / 2"
proof -
  have "(2::rat) powi (- 1074 - 1) = 2 powi (- 1074) / 2 powi 1"
    by (rule power_int_diff) simp
  then show ?thesis by simp
qed

lemma round_double_pos:
  assumes "2 powi (- 1075) < q"
  shows "round_double q = PosInf \<or> (\<exists>r. 0 < r \<and> round_double q = Fin r)"
proof -
  have q: "0 < q" using assms zero_less_power_int [of "2::rat" "- 1075"] by linarith
  define e where "e = max (binade q) (- 1022)"
  define ulp :: rat where "ulp = 2 powi (e - 52)"
  have ulp: "0 < ulp" by (simp add: ulp_def)
  have half: "1 / 2 < q / ulp"
  proof (cases "- 1022 \<le> binade q")
    case True
    then have e: "e = binade q" by (simp add: e_def)
    have "(2::rat) powi (e - 52 + 52) = 2 powi (e - 52) * 2 powi 52"
      by (rule power_int_add) simp
    then have "2 powi e = ulp * 2 ^ 52" by (simp add: ulp_def)
    with binade_le [OF q] e have "ulp * 2 ^ 52 \<le> q" by simp
    with ulp have "2 ^ 52 \<le> q / ulp" by (simp add: pos_le_divide_eq mult.commute)
    moreover have "(1 / 2 :: rat) < 2 ^ 52" by simp
    ultimately show ?thesis by linarith
  next
    case False
    then have e: "e = - 1022" by (simp add: e_def)
    then have u: "ulp = 2 powi (- 1074)" by (simp add: ulp_def)
    from assms have "ulp / 2 < q" by (simp only: half_ulp u)
    with ulp show ?thesis by (simp add: pos_less_divide_eq)
  qed
  from round_even_ge_1 [OF half] have "1 \<le> round_even (q / ulp)" .
  then have "(1::rat) \<le> of_int (round_even (q / ulp))" by simp
  with ulp have r: "0 < of_int (round_even (q / ulp)) * ulp"
    by (intro mult_pos_pos) auto
  from q have "round_double q =
      (if 2 powi 1024 \<le> of_int (round_even (q / ulp)) * ulp then PosInf
       else Fin (of_int (round_even (q / ulp)) * ulp))"
    unfolding round_double_def Let_def ulp_def e_def by simp
  with r show ?thesis by auto
qed

lemma round_double_neg:
  assumes "q < - (2 powi (- 1075))"
  shows "round_double q = NegInf \<or> (\<exists>r. r < 0 \<and> round_double q = Fin r)"
proof -
  from assms have "2 powi (- 1075) < - q" by linarith
  from round_double_pos [OF this] have
    "round_double (- q) = PosInf \<or> (\<exists>r. 0 < r \<and> round_double (- q) = Fin r)" .
  then show ?thesis
    unfolding round_double_minus
    by (cases "round_double q") (auto simp: js_neg_def)
qed

lemma round_double_sign:
  assumes "q = 0 \<or> 2 powi (- 1075) < \<bar>q\<bar>"
  shows "js_less (round_double q) (Fin 0) = (q < 0)"
proof -
  consider "q = 0" | "2 powi (- 1075) < q" | "q < - (2 powi (- 1075))"
    using assms by (auto simp: abs_if split: if_splits)
  then show ?thesis
  proof cases
    case 1
    then show ?thesis by (simp add: round_double_def js_less_def)
  next
    case 2
    then have "0 < q" using zero_less_power_int [of "2::rat" "- 1075"] by linarith
    with round_double_pos [OF 2] show ?thesis by (auto simp: js_less_def)
  next
    case 3
    then have "q < 0" using zero_less_power_int [of "2::rat" "- 1075"] by linarith
    with round_double_neg [OF 3] show ?thesis by (auto simp: js_less_def)
  qed
qed

lemma round_double_nat:
  assumes "0 < k" "k \<le> 2 ^ 53"
  shows "round_double (of_int k) = Fin (of_int k)"
proof -
  let ?a = "of_int k :: rat"
  have a: "0 < ?a" using assms by simp
  have a53: "?a \<le> 2 powi 53"
  proof -
    from assms have "(of_int k :: rat) \<le> of_int (2 ^ 53)" by (simp only: of_int_le_iff)
    then show ?thesis by simp
  qed
  define e where "e = max (binade ?a) (- 1022)"
  define ulp :: rat where "ulp = 2 powi (e - 52)"
  have ulp: "0 < ulp" by (simp add: ulp_def)
  from binade_le [OF a] a53 have "(2::rat) powi (binade ?a) \<le> 2 powi 53" by linarith
  then have b53: "binade ?a \<le> 53" by (rule power_int_le_imp_le_exp [rotated]) simp_all
  then have e53: "e \<le> 53" by (simp add: e_def)
  have "\<exists>n. ?a / ulp = of_int n"
  proof (cases "e \<le> 52")
    case True
    have "(2::rat) powi (- (52 - e)) = 1 / 2 powi (52 - e)" by (rule power_int_minus_divide)
    then have "ulp = 1 / 2 ^ nat (52 - e)"
      using True by (simp add: ulp_def power_int_nonneg_exp)
    then have "?a / ulp = of_int (k * 2 ^ nat (52 - e))" by simp
    then show ?thesis ..
  next
    case False
    with e53 have e: "e = 53" by simp
    then have "binade ?a = 53" by (simp add: e_def max_def split: if_splits)
    with binade_le [OF a] a53 have "?a = 2 powi 53" by simp
    moreover from e have "ulp = 2" by (simp add: ulp_def)
    ultimately have "?a / ulp = of_int (2 ^ 52)" by simp
    then show ?thesis ..
  qed
  then obtain n where n: "?a / ulp = of_int n" ..
  then have r: "of_int (round_even (?a / ulp)) * ulp = ?a"
    using ulp by (simp add: round_even_of_int field_simps)
  have "(2::rat) powi 53 < 2 powi 1024" by (rule power_int_strict_increasing) simp_all
  with a53 have "\<not> 2 powi 1024 \<le> ?a" by linarith
  with a r show ?thesis
    unfolding round_double_def Let_def
    using e_def ulp_def by (simp add: not_le)
qed

lemma round_double_int:
  assumes "\<bar>k\<bar> \<le> 2 ^ 53"
  shows "round_double (of_int k) = Fin (of_int k)"
proof -
  consider "k = 0" | "0 < k" | "k < 0" by linarith
  then show ?thesis
  proof cases
    case 1
    then show ?thesis by (simp add: round_double_def)
  next
    case 2
    with assms round_double_nat [of k] show ?thesis by simp
  next
    case 3
    with assms round_double_nat [of "- k"] have "round_double (- of_int k) = Fin (- of_int k)"
      by simp
    then show ?thesis
      unfolding round_double_minus by (cases "round_double (of_int k)") (auto simp: js_neg_def)
  qed
qed

lemma round_double_tiny:
  assumes "0 \<le> a" "a < 2 powi (- 1075)"
  shows "round_double a = Fin 0"
proof (cases "a = 0")
  case True
  then show ?thesis by (simp add: round_double_def)
next
  case False
  with assms have a: "0 < a" by simp
  have "binade a < - 1022"
  proof (rule ccontr)
    assume "\<not> binade a < - 1022"
    then have "(2::rat) powi (- 1075) \<le> 2 powi (binade a)"
      by (intro power_int_increasing) simp_all
    with binade_le [OF a] assms show False by linarith
  qed
  then have e: "max (binade a) (- 1022) = - 1022" by simp
  have u: "0 < (2::rat) powi (- 1074)" by simp
  from assms have "a < 2 powi (- 1074) / 2" by (simp only: half_ulp)
  with u have "a / 2 powi (- 1074) < 1 / 2" by (simp add: pos_divide_less_eq)
  moreover from a u have "0 \<le> a / 2 powi (- 1074)" by simp
  ultimately have "round_even (a / 2 powi (- 1074)) = 0" by (intro round_even_small)
  moreover have "\<not> (2::rat) powi 1024 \<le> 0" by (simp add: not_le)
  moreover from a have abs: "\<bar>a\<bar> = a" by simp
  moreover have "(- 1022 :: int) - 52 = - 1074" by simp
  ultimately show ?thesis
    unfolding round_double_def Let_def abs e using a
    by (simp del: power_int_numeral power_int_numeral_neg_numeral)
qed

lemma double_multiple:
  assumes "round_double x = Fin x"
  shows "\<exists>k. x = of_int k * 2 powi (- 1074)"
proof (cases "x = 0")
  case True
  then have "x = of_int 0 * 2 powi (- 1074)" by simp
  then show ?thesis ..
next
  case False
  define e where "e = max (binade \<bar>x\<bar>) (- 1022)"
  define n where "n = round_even (\<bar>x\<bar> / 2 powi (e - 52))"
  have e: "- 1022 \<le> e" by (simp add: e_def)
  from assms False have "x = of_int n * 2 powi (e - 52) \<or> x = - (of_int n * 2 powi (e - 52))"
    unfolding round_double_def Let_def e_def [symmetric] n_def [symmetric]
    by (auto split: if_splits)
  moreover have "(2::rat) powi (e + 1022 + (- 1074)) = 2 powi (e + 1022) * 2 powi (- 1074)"
    by (rule power_int_add) simp
  then have "(2::rat) powi (e - 52) = of_int (2 ^ nat (e + 1022)) * 2 powi (- 1074)"
    using e by (simp add: power_int_nonneg_exp)
  ultimately have "x = of_int (n * 2 ^ nat (e + 1022)) * 2 powi (- 1074)
      \<or> x = of_int (- (n * 2 ^ nat (e + 1022))) * 2 powi (- 1074)"
    by (simp add: algebra_simps)
  then show ?thesis by blast
qed

lemma js_rem_fin: "y \<noteq> 0 \<Longrightarrow> js_rem (Fin x) (Fin y) = Fin (trunc_rem x y)"
  by (simp add: js_rem_def trunc_rem_def)

lemma trunc_rem_quot:
  "y \<noteq> 0 \<Longrightarrow> trunc_rem x y / y = x / y - of_int (truncate_rat (x / y))"
  by (simp add: trunc_rem_def field_simps)

lemma truncate_rat_above:
  assumes lt: "q < of_int (truncate_rat q)"
  shows "truncate_rat q = \<lfloor>q\<rfloor> + 1" and "q \<noteq> of_int \<lfloor>q\<rfloor>"
proof -
  have "\<not> q < of_int \<lfloor>q\<rfloor>" using of_int_floor_le [of q] by linarith
  with lt have tr: "truncate_rat q = \<lceil>q\<rceil>"
    by (auto simp: truncate_rat_def split: if_splits)
  from lt tr show ne: "q \<noteq> of_int \<lfloor>q\<rfloor>"
    by (metis ceiling_of_int less_irrefl)
  then have "\<lceil>q\<rceil> = \<lfloor>q\<rfloor> + 1" by (simp add: ceiling_altdef)
  with tr show "truncate_rat q = \<lfloor>q\<rfloor> + 1" by simp
qed

lemma truncate_rat_not_above:
  assumes nlt: "\<not> q < of_int (truncate_rat q)"
  shows "truncate_rat q = \<lfloor>q\<rfloor>"
proof (cases "q < 0")
  case True
  with nlt have "q = of_int \<lceil>q\<rceil>"
    using le_of_int_ceiling [of q] by (simp add: truncate_rat_def)
  then have "\<lfloor>q\<rfloor> = \<lceil>q\<rceil>" by (metis floor_of_int)
  with True show ?thesis by (simp add: truncate_rat_def)
next
  case False
  then show ?thesis by (simp add: truncate_rat_def)
qed

lemma rem_floor:
  assumes "y \<noteq> 0"
  shows "(if trunc_rem x y / y < 0 then trunc_rem x y + y else trunc_rem x y) = floor_mod x y"
proof -
  let ?q = "x / y"
  have t: "(trunc_rem x y / y < 0) = (?q < of_int (truncate_rat ?q))"
    using assms by (simp add: trunc_rem_quot)
  show ?thesis
  proof (cases "?q < of_int (truncate_rat ?q)")
    case True
    from truncate_rat_above(1) [OF True] have "truncate_rat ?q = \<lfloor>?q\<rfloor> + 1" .
    with True t show ?thesis by (simp add: trunc_rem_def floor_mod_def algebra_simps)
  next
    case False
    from truncate_rat_not_above [OF False] have "truncate_rat ?q = \<lfloor>?q\<rfloor>" .
    with False t show ?thesis by (simp add: trunc_rem_def floor_mod_def)
  qed
qed

lemma floor_mod_nonzero:
  assumes "y \<noteq> 0" "trunc_rem x y / y < 0"
  shows "floor_mod x y \<noteq> 0"
proof
  assume z: "floor_mod x y = 0"
  let ?q = "x / y"
  from assms have "?q < of_int (truncate_rat ?q)" by (simp add: trunc_rem_quot)
  then have ne: "?q \<noteq> of_int \<lfloor>?q\<rfloor>" by (rule truncate_rat_above(2))
  from z have "x = y * of_int \<lfloor>?q\<rfloor>" by (simp add: floor_mod_def)
  then have "x / y = of_int \<lfloor>?q\<rfloor>" using assms by (simp add: field_simps)
  with ne show False by simp
qed

lemma floor_mod_bounds:
  "(0 < y \<longrightarrow> 0 \<le> floor_mod x y \<and> floor_mod x y < y)
   \<and> (y < 0 \<longrightarrow> y < floor_mod x y \<and> floor_mod x y \<le> 0)"
proof (intro conjI impI)
  assume m: "0 < y"
  from floor_divide_lower [OF m, of x] show "0 \<le> floor_mod x y"
    by (simp add: floor_mod_def mult.commute)
  from floor_divide_upper [OF m, of x] show "floor_mod x y < y"
    by (simp add: floor_mod_def algebra_simps)
next
  assume m: "y < 0"
  then have p: "0 < - y" by simp
  have e: "(- x) / (- y) = x / y" by simp
  from floor_divide_upper [OF p, of "- x"] show "y < floor_mod x y"
    unfolding e by (simp add: floor_mod_def algebra_simps)
  from floor_divide_lower [OF p, of "- x"] show "floor_mod x y \<le> 0"
    unfolding e by (simp add: floor_mod_def algebra_simps)
qed

lemma mod_js_fin:
  assumes "y \<noteq> 0"
    and "trunc_rem x y = 0 \<or> 2 powi (- 1075) < \<bar>trunc_rem x y / y\<bar>"
  shows "mod_js (Fin x) (Fin y) =
           (if trunc_rem x y / y < 0 then round_double (floor_mod x y)
            else Fin (floor_mod x y))"
proof -
  let ?r = "trunc_rem x y"
  from assms have "?r / y = 0 \<or> 2 powi (- 1075) < \<bar>?r / y\<bar>" by auto
  from round_double_sign [OF this]
  have test: "js_less (js_div (Fin ?r) (Fin y)) (Fin 0) = (?r / y < 0)"
    using assms(1) by (simp add: js_div_def)
  have add: "js_add (Fin ?r) (Fin y) = round_double (?r + y)" by (simp add: js_add_def)
  show ?thesis
    unfolding mod_js_def Let_def js_rem_fin [OF assms(1)] test add
    using rem_floor [OF assms(1), of x] by (simp split: if_splits)
qed

lemma mod_js_sign:
  assumes "is_double x" "is_double y" "y \<noteq> 0"
    and "trunc_rem x y = 0 \<or> 2 powi (- 1075) < \<bar>trunc_rem x y / y\<bar>"
  shows "mod_js (Fin x) (Fin y) = Fin 0
         \<or> (0 < y \<and> js_less (Fin 0) (mod_js (Fin x) (Fin y)))
         \<or> (y < 0 \<and> js_less (mod_js (Fin x) (Fin y)) (Fin 0))"
proof (cases "trunc_rem x y / y < 0")
  case False
  with mod_js_fin [OF assms(3,4)] have "mod_js (Fin x) (Fin y) = Fin (floor_mod x y)" by simp
  with floor_mod_bounds [of y x] assms(3) show ?thesis
    by (auto simp: js_less_def)
next
  case True
  with mod_js_fin [OF assms(3,4)]
  have res: "mod_js (Fin x) (Fin y) = round_double (floor_mod x y)" by simp
  from assms(1,2) obtain kx ky where
    kx: "x = of_int kx * 2 powi (- 1074)" and ky: "y = of_int ky * 2 powi (- 1074)"
    using double_multiple unfolding is_double_def by blast
  have "floor_mod x y = of_int (kx - ky * \<lfloor>x / y\<rfloor>) * 2 powi (- 1074)"
    unfolding floor_mod_def by (subst kx, subst ky) (simp add: algebra_simps)
  then obtain k where k: "floor_mod x y = of_int k * 2 powi (- 1074)" ..
  have nz: "floor_mod x y \<noteq> 0" using floor_mod_nonzero [OF assms(3) True] .
  with k have k0: "k \<noteq> 0" by auto
  have u: "0 < (2::rat) powi (- 1074)" by simp
  have uu: "(2::rat) powi (- 1075) < 2 powi (- 1074)"
    by (rule power_int_strict_increasing) simp_all
  show ?thesis
  proof (cases "0 < y")
    case True
    with floor_mod_bounds [of y x] nz have pos: "0 < floor_mod x y" by auto
    with k u have "0 < k" by (simp add: zero_less_mult_iff)
    then have "(1::rat) \<le> of_int k" by simp
    with u have "(2::rat) powi (- 1074) \<le> of_int k * 2 powi (- 1074)"
      using mult_right_mono [of 1 "of_int k" "(2::rat) powi (- 1074)"] by simp
    with uu k have "2 powi (- 1075) < floor_mod x y" by linarith
    from round_double_pos [OF this] res True show ?thesis by (auto simp: js_less_def)
  next
    case False
    with assms(3) have neg: "y < 0" by simp
    with floor_mod_bounds [of y x] nz have fneg: "floor_mod x y < 0" by auto
    with k u have "k < 0" by (simp add: mult_less_0_iff)
    then have "k \<le> - 1" by simp
    then have "(of_int k :: rat) \<le> of_int (- 1)" by (simp only: of_int_le_iff)
    then have "(of_int k :: rat) \<le> - 1" by simp
    with u have "of_int k * 2 powi (- 1074) \<le> - ((2::rat) powi (- 1074))"
      using mult_right_mono [of "of_int k" "- 1" "(2::rat) powi (- 1074)"] by simp
    with uu k have "floor_mod x y < - (2 powi (- 1075))" by linarith
    from round_double_neg [OF this] res neg show ?thesis by (auto simp: js_less_def)
  qed
qed

lemma floor_mod_int: "floor_mod (of_int n) (of_int m) = of_int (n mod m)"
  by (simp add: floor_mod_def floor_divide_of_int_eq minus_div_mult_eq_mod [symmetric] algebra_simps)

lemma mod_js_int:
  assumes "m \<noteq> 0" "\<bar>m\<bar> \<le> 2 ^ 53"
  shows "mod_js (Fin (of_int n)) (Fin (of_int m)) = Fin (of_int (n mod m))"
proof -
  let ?x = "of_int n :: rat" and ?y = "of_int m :: rat"
  have y: "?y \<noteq> 0" using assms by simp
  define r where "r = n - m * truncate_rat (?x / ?y)"
  have r: "trunc_rem ?x ?y = of_int r" by (simp add: trunc_rem_def r_def)
  have nu: "trunc_rem ?x ?y = 0 \<or> 2 powi (- 1075) < \<bar>trunc_rem ?x ?y / ?y\<bar>"
  proof (cases "r = 0")
    case True
    then show ?thesis by (simp add: r)
  next
    case False
    then have "1 \<le> \<bar>r\<bar>" by simp
    then have r1: "(1::rat) \<le> \<bar>of_int r\<bar>" by (metis of_int_1 of_int_abs of_int_le_iff)
    from assms have "(of_int \<bar>m\<bar> :: rat) \<le> of_int (2 ^ 53)" by (simp only: of_int_le_iff)
    then have m53: "\<bar>?y\<bar> \<le> 2 ^ 53" by simp
    have ypos: "0 < \<bar>?y\<bar>" using y by simp
    have "(2::rat) powi (- 1075) < 2 powi (- 53)"
      by (rule power_int_strict_increasing) simp_all
    also have "\<dots> = 1 / 2 ^ 53" by (simp add: power_int_minus_divide)
    also have "\<dots> \<le> 1 / \<bar>?y\<bar>" using m53 ypos by (intro divide_left_mono) auto
    also have "\<dots> \<le> \<bar>of_int r\<bar> / \<bar>?y\<bar>" using r1 ypos by (intro divide_right_mono) auto
    finally show ?thesis by (simp add: r)
  qed
  have "\<bar>n mod m\<bar> < \<bar>m\<bar>" using assms(1) by (rule abs_mod_less)
  with assms(2) have "\<bar>n mod m\<bar> \<le> 2 ^ 53" by linarith
  from round_double_int [OF this] mod_js_fin [OF y nu] show ?thesis
    by (simp add: floor_mod_int)
qed

lemma int_mod_sign:
  assumes "m \<noteq> (0::int)"
  shows "a mod m = 0 \<or> sgn (a mod m) = sgn m"
proof (cases "0 < m")
  case True
  then have "0 \<le> a mod m" by simp
  then consider "a mod m = 0" | "0 < a mod m" by linarith
  then show ?thesis using True by cases (simp_all add: sgn_if)
next
  case False
  with assms have neg: "m < 0" by simp
  then have "a mod m \<le> 0" by simp
  then consider "a mod m = 0" | "a mod m < 0" by linarith
  then show ?thesis using neg by cases (simp_all add: sgn_if)
qed

lemma tiny_lt_quarter: "(2::rat) powi (- 1075) < 1 / 4"
proof -
  have "(2::rat) powi (- 1075) < 2 powi (- 2)"
    by (rule power_int_strict_increasing) simp_all
  then show ?thesis by (simp add: power_int_minus_divide)
qed

lemma mod_js_underflow:
  "mod_js (Fin (- (2 powi (- 1074)))) (Fin 3) = Fin (- (2 powi (- 1074)))"
proof -
  define u :: rat where "u = 2 powi (- 1074)"
  have u0: "0 < u" by (simp add: u_def)
  have "(2::rat) powi (- 1074) < 2 powi 0" by (rule power_int_strict_increasing) simp_all
  then have u1: "u < 1" by (simp add: u_def)
  have h: "(2::rat) powi (- 1075) = u / 2" by (simp only: half_ulp u_def)
  from u0 u1 have "\<lceil>- u / 3\<rceil> = 0" by (simp add: ceiling_eq_iff)
  with u0 have t: "truncate_rat (- u / 3) = 0" by (simp add: truncate_rat_def)
  then have rem: "js_rem (Fin (- u)) (Fin 3) = Fin (- u)" by (simp add: js_rem_def)
  have "u / 3 < u / 2" using u0 by (intro divide_strict_left_mono) simp_all
  then have "u / 3 < 2 powi (- 1075)" by (simp only: h)
  moreover have "0 \<le> u / 3" using u0 by simp
  ultimately have "round_double (u / 3) = Fin 0" by (intro round_double_tiny)
  then have "round_double (- (u / 3)) = Fin 0"
    unfolding round_double_minus by (simp add: js_neg_def)
  then have div: "js_div (Fin (- u)) (Fin 3) = Fin 0" by (simp add: js_div_def)
  have "mod_js (Fin (- u)) (Fin 3) = Fin (- u)"
    unfolding mod_js_def Let_def rem div by (simp add: js_less_def)
  then show ?thesis by (simp only: u_def)
qed

text \<open>
  C5, as the source has it. Let \<open>r\<close> be the exact remainder \<open>n % modulus\<close> of finite
  operands with a modulus other than zero, and suppose the quotient \<open>r / modulus\<close> that
  the test computes does not underflow to zero (\<open>r\<close> is 0, or the quotient is above
  \<open>2^-1075\<close> in magnitude). Then \<open>mod\<close> is the floored-division modulo
  \<open>n - modulus * floor (n / modulus)\<close>: that value itself when no correction is made,
  and that value rounded to the nearest double when \<open>modulus\<close> is added. For operands
  that are doubles the result is zero or has the sign of the modulus. For integers whose
  absolute values are at most \<open>2^53\<close> it is exactly \<open>mod\<close> of HOL's \<open>int\<close>, zero or of
  the sign of the modulus. \<open>mod(-1, 4)\<close> is 3, where the truncating remainder \<open>-1 % 4\<close> is
  -1, and \<open>mod(5, -3)\<close> is -1.
\<close>

theorem mod_js_floored:
  "(y \<noteq> 0 \<and> (trunc_rem x y = 0 \<or> 2 powi (- 1075) < \<bar>trunc_rem x y / y\<bar>) \<longrightarrow>
      mod_js (Fin x) (Fin y) =
        (if trunc_rem x y / y < 0 then round_double (floor_mod x y) else Fin (floor_mod x y)))
   \<and> (is_double x \<and> is_double y \<and> y \<noteq> 0
        \<and> (trunc_rem x y = 0 \<or> 2 powi (- 1075) < \<bar>trunc_rem x y / y\<bar>) \<longrightarrow>
      mod_js (Fin x) (Fin y) = Fin 0
      \<or> (0 < y \<and> js_less (Fin 0) (mod_js (Fin x) (Fin y)))
      \<or> (y < 0 \<and> js_less (mod_js (Fin x) (Fin y)) (Fin 0)))
   \<and> (m \<noteq> 0 \<and> \<bar>n\<bar> \<le> 2 ^ 53 \<and> \<bar>m\<bar> \<le> 2 ^ 53 \<longrightarrow>
      mod_js (Fin (of_int n)) (Fin (of_int m)) = Fin (of_int (n mod m))
      \<and> (n mod m = 0 \<or> sgn (n mod m) = sgn m))
   \<and> mod_js (Fin (- 1)) (Fin 4) = Fin 3
   \<and> js_rem (Fin (- 1)) (Fin 4) = Fin (- 1)
   \<and> mod_js (Fin 5) (Fin (- 3)) = Fin (- 1)"
proof -
  have "mod_js (Fin (- 1)) (Fin 4) = Fin 3"
    using mod_js_int [of 4 "- 1"] by simp
  moreover have "js_rem (Fin (- 1)) (Fin 4) = Fin (- 1)" by code_simp
  moreover have "mod_js (Fin 5) (Fin (- 3)) = Fin (- 1)"
    using mod_js_int [of "- 3" 5] by simp
  ultimately show ?thesis
    using mod_js_fin [of y x] mod_js_sign [of x y] mod_js_int [of m n] int_mod_sign [of m n]
    by blast
qed

theorem mod_js_floored_witness:
  "mod_js (Fin (- 7)) (Fin 3) = Fin 2 \<and> js_less (Fin 0) (mod_js (Fin (- 7)) (Fin 3))"
proof -
  have d: "is_double (- 7)" "is_double 3"
    using round_double_int [of "- 7"] round_double_int [of 3] by (simp_all add: is_double_def)
  have r: "trunc_rem (- 7) 3 = - 1" by code_simp
  have nu: "trunc_rem (- 7) 3 = 0 \<or> 2 powi (- 1075) < \<bar>trunc_rem (- 7) 3 / 3\<bar>"
    unfolding r using tiny_lt_quarter by simp
  have b: "(3::int) \<noteq> 0 \<and> \<bar>- 7 :: int\<bar> \<le> 2 ^ 53 \<and> \<bar>3 :: int\<bar> \<le> 2 ^ 53" by simp
  have n3: "(3::rat) \<noteq> 0" by simp
  note th = mod_js_floored [of 3 "- 7" 3 "- 7"]
  from th b have "mod_js (Fin (of_int (- 7))) (Fin (of_int 3)) = Fin (of_int (- 7 mod 3))"
    by blast
  then have v: "mod_js (Fin (- 7)) (Fin 3) = Fin 2" by simp
  from th d nu n3 have s: "mod_js (Fin (- 7)) (Fin 3) = Fin 0
      \<or> ((0::rat) < 3 \<and> js_less (Fin 0) (mod_js (Fin (- 7)) (Fin 3)))
      \<or> ((3::rat) < 0 \<and> js_less (mod_js (Fin (- 7)) (Fin 3)) (Fin 0))"
    by blast
  from s v show ?thesis by simp
qed

text \<open>C5 as the specification words it fails. The result does not always have the
  sign of the modulus: with an infinite modulus the dividend comes back, \<open>mod(-5, Infinity)\<close>
  is -5; when the quotient underflows no correction is made, \<open>mod(-2^-1074, 3)\<close> is
  \<open>-2^-1074\<close>; and a zero modulus gives \<open>NaN\<close>. Nor is it always the floored-division
  modulo: \<open>mod(-1, 2^54)\<close> is \<open>2^54\<close>, the sum \<open>2^54 - 1\<close> rounded.\<close>

theorem mod_js_sign_counterexample:
  "mod_js (Fin (- 5)) PosInf = Fin (- 5)
   \<and> mod_js (Fin (- (2 powi (- 1074)))) (Fin 3) = Fin (- (2 powi (- 1074)))
   \<and> mod_js (Fin (- 1)) (Fin (2 ^ 54)) = Fin (2 ^ 54)
   \<and> mod_js (Fin 5) (Fin 0) = NaN"
proof -
  have a: "mod_js (Fin (- 5)) PosInf = Fin (- 5)"
    by (simp add: mod_js_def js_rem_def js_div_def js_less_def)
  have b: "mod_js (Fin (- 1)) (Fin (2 ^ 54)) = Fin (2 ^ 54)" by code_simp
  have c: "mod_js (Fin 5) (Fin 0) = NaN"
    by (simp add: mod_js_def js_rem_def js_div_def js_less_def)
  from a b c mod_js_underflow show ?thesis by (simp only: simp_thms)
qed

section \<open>Properties of the list accessors\<close>

lemma join_item_single: "length (to_string x) = 1 \<Longrightarrow> join_item x = to_string x"
  by (cases x) (auto simp: join_item_def to_string_def)

lemma join_empty_sep: "join [] a = concat (map join_item a)"
  by (induction "[] :: string" a rule: join.induct) simp_all

lemma listContents_from_eq:
  "listContents_from rest a =
     (if \<forall>x\<in>set rest. length (to_string x) = 1 then join [] a else join '' '' a)"
  by (induction rest) simp_all

lemma join_all_single:
  "\<forall>x\<in>set a. length (to_string x) = 1 \<Longrightarrow> join [] a = concat (map to_string a)"
  by (simp add: join_empty_sep join_item_single cong: map_cong)

text \<open>
  C6. If every item of the list stringifies to exactly one character, \<open>listContents\<close> is
  the items' strings joined with nothing between them; if some item does not, it is the
  array joined with a single space. \<open>listContents\<close> over \<open>[1,2,3]\<close> is \<open>"123"\<close>, and over
  \<open>[1,22,3]\<close> it is \<open>"1 22 3"\<close>.
\<close>

theorem listContents_join:
  "((\<forall>x\<in>set (list_value l). length (to_string x) = 1)
      \<longrightarrow> listContents l = concat (map to_string (list_value l)))
   \<and> ((\<exists>x\<in>set (list_value l). length (to_string x) \<noteq> 1)
      \<longrightarrow> listContents l = join '' '' (list_value l))
   \<and> listContents \<lparr>list_value = [JNum (Fin 1), JNum (Fin 2), JNum (Fin 3)],
                    monitorUpToDate = True\<rparr> = ''123''
   \<and> listContents \<lparr>list_value = [JNum (Fin 1), JNum (Fin 22), JNum (Fin 3)],
                    monitorUpToDate = True\<rparr> = ''1 22 3''"
proof -
  have "listContents \<lparr>list_value = [JNum (Fin 1), JNum (Fin 2), JNum (Fin 3)],
          monitorUpToDate = True\<rparr> = ''123''"
    by code_simp
  moreover have "listContents \<lparr>list_value = [JNum (Fin 1), JNum (Fin 22), JNum (Fin 3)],
          monitorUpToDate = True\<rparr> = ''1 22 3''"
    by code_simp
  ultimately show ?thesis
    by (auto simp: listContents_def listContents_from_eq join_all_single)
qed

theorem listContents_join_witness:
  "listContents \<lparr>list_value = [JStr ''a'', JStr ''b''], monitorUpToDate = False\<rparr> = ''ab''
   \<and> listContents \<lparr>list_value = [JNull, JStr ''b''], monitorUpToDate = False\<rparr> = '' b''"
  using listContents_join [of "\<lparr>list_value = [JStr ''a'', JStr ''b''], monitorUpToDate = False\<rparr>"]
    listContents_join [of "\<lparr>list_value = [JNull, JStr ''b''], monitorUpToDate = False\<rparr>"]
  by (simp add: to_string_def join_item_def)

lemma invalid_index_rejected:
  assumes "invalid_index idx len"
  shows "listIndex rnd idx len = - 1"
proof (cases "len = 0")
  case True
  then show ?thesis by (simp add: listIndex_len0)
next
  case False
  with assms have sym: "idx \<noteq> JStr ''last''" "idx \<noteq> JStr ''random''" "idx \<noteq> JStr ''*''"
    and num: "case to_number idx of
               Fin q \<Rightarrow> - (2 ^ 31) \<le> truncate_rat q \<and> truncate_rat q < 2 ^ 31
                          \<and> (truncate_rat q < 1 \<or> len < truncate_rat q)
             | _ \<Rightarrow> True"
    by (simp_all add: invalid_index_def)
  from num have "sint (to_int32 (to_number idx)) < 1 \<or> len < sint (to_int32 (to_number idx))"
    by (cases "to_number idx") (auto simp: to_int32_def sint_small)
  with sym show ?thesis by (auto simp: listIndex_plain Let_def)
qed

lemma listIndex_valid:
  assumes "1 \<le> k" "k \<le> len" "k < 2 ^ 31"
  shows "listIndex rnd (JNum (Fin (of_int k))) len = k - 1"
proof -
  from assms have "sint (word_of_int k :: 32 word) = k" by (intro sint_small) simp_all
  with assms show ?thesis
    by (simp add: listIndex_def index_in_range_def js_bitor_zero to_int32_of_int Let_def)
qed

text \<open>
  C7, as the source has it. \<open>listReplace\<close>, \<open>listInsert\<close> and \<open>listDelete\<close> give the list
  back unchanged when the index is invalid: when the list is empty (\<open>listReplace\<close>,
  \<open>listDelete\<close>), or when the index is no symbolic one and its number is \<open>NaN\<close>, infinite
  or, truncated towards zero, in the signed 32-bit range and outside \<open>[1, length]\<close> (for
  \<open>listInsert\<close>: outside \<open>[1, length + 1]\<close>); for \<open>listDelete\<close> the index \<open>"all"\<close> is
  excepted. An integer index \<open>k\<close> inside that interval (and below \<open>2^31\<close>) replaces item
  \<open>k\<close>, inserts before item \<open>k\<close> or deletes item \<open>k\<close>, and sets \<open>_monitorUpToDate\<close> to false.
  Whenever \<open>listIndex\<close> accepts the index, and whenever the list given back differs from
  the one taken, \<open>_monitorUpToDate\<close> is false afterwards; for \<open>listDelete\<close> this holds for
  every index other than \<open>"all"\<close>. \<open>listDelete\<close> with \<open>"all"\<close> assigns a new empty array
  to the list's value and leaves \<open>_monitorUpToDate\<close> as it was. (Nothing is said here
  about indices whose truncated value is beyond the signed 32-bit range.)
\<close>

theorem list_mutators:
  "(invalid_index idx (int (length (list_value l))) \<longrightarrow> listReplace rnd l idx v = l)
   \<and> (listIndex rnd idx (int (length (list_value l))) \<noteq> - 1 \<or> listReplace rnd l idx v \<noteq> l \<longrightarrow>
        \<not> monitorUpToDate (listReplace rnd l idx v))
   \<and> (1 \<le> k \<and> k \<le> int (length (list_value l)) \<and> k < 2 ^ 31 \<longrightarrow>
        listReplace rnd l (JNum (Fin (of_int k))) v =
          l\<lparr>list_value := (list_value l)[nat (k - 1) := v], monitorUpToDate := False\<rparr>)
   \<and> (invalid_index idx (int (length (list_value l)) + 1) \<longrightarrow> listInsert rnd l idx v = l)
   \<and> (listIndex rnd idx (int (length (list_value l)) + 1) \<noteq> - 1 \<or> listInsert rnd l idx v \<noteq> l \<longrightarrow>
        \<not> monitorUpToDate (listInsert rnd l idx v))
   \<and> (1 \<le> k \<and> k \<le> int (length (list_value l)) + 1 \<and> k < 2 ^ 31 \<longrightarrow>
        listInsert rnd l (JNum (Fin (of_int k))) v =
          l\<lparr>list_value := take (nat (k - 1)) (list_value l) @ [v] @ drop (nat (k - 1)) (list_value l),
            monitorUpToDate := False\<rparr>)
   \<and> (idx \<noteq> JStr ''all'' \<and> invalid_index idx (int (length (list_value l))) \<longrightarrow>
        listDelete rnd l idx = l)
   \<and> (idx \<noteq> JStr ''all''
        \<and> (listIndex rnd idx (int (length (list_value l))) \<noteq> - 1 \<or> listDelete rnd l idx \<noteq> l) \<longrightarrow>
        \<not> monitorUpToDate (listDelete rnd l idx))
   \<and> (1 \<le> k \<and> k \<le> int (length (list_value l)) \<and> k < 2 ^ 31 \<longrightarrow>
        listDelete rnd l (JNum (Fin (of_int k))) =
          l\<lparr>list_value := take (nat (k - 1)) (list_value l) @ drop (nat k) (list_value l),
            monitorUpToDate := False\<rparr>)
   \<and> listDelete rnd l (JStr ''all'') = l\<lparr>list_value := []\<rparr>"
proof -
  let ?n = "int (length (list_value l))"
  have r1: "listReplace rnd l idx v = l" if "invalid_index idx ?n"
    using invalid_index_rejected [OF that, of rnd] by (simp add: listReplace_def)
  have r2: "\<not> monitorUpToDate (listReplace rnd l idx v)"
    if "listIndex rnd idx ?n \<noteq> - 1 \<or> listReplace rnd l idx v \<noteq> l"
    using that by (auto simp: listReplace_def Let_def)
  have r3: "listReplace rnd l (JNum (Fin (of_int k))) v =
          l\<lparr>list_value := (list_value l)[nat (k - 1) := v], monitorUpToDate := False\<rparr>"
    if "1 \<le> k" "k \<le> ?n" "k < 2 ^ 31"
    using that listIndex_valid [OF that, of rnd]
    by (simp add: listReplace_def array_set_def Let_def)
  have i1: "listInsert rnd l idx v = l" if "invalid_index idx (?n + 1)"
    using invalid_index_rejected [OF that, of rnd] by (simp add: listInsert_def)
  have i2: "\<not> monitorUpToDate (listInsert rnd l idx v)"
    if "listIndex rnd idx (?n + 1) \<noteq> - 1 \<or> listInsert rnd l idx v \<noteq> l"
    using that by (auto simp: listInsert_def Let_def)
  have i3: "listInsert rnd l (JNum (Fin (of_int k))) v =
          l\<lparr>list_value := take (nat (k - 1)) (list_value l) @ [v] @ drop (nat (k - 1)) (list_value l),
            monitorUpToDate := False\<rparr>"
    if "1 \<le> k" "k \<le> ?n + 1" "k < 2 ^ 31"
  proof -
    from that have "splice_start (list_value l) (k - 1) = nat (k - 1)"
      by (simp add: splice_start_def)
    with that listIndex_valid [OF that, of rnd] show ?thesis
      by (simp add: listInsert_def splice_insert_def Let_def)
  qed
  have d1: "listDelete rnd l idx = l" if "idx \<noteq> JStr ''all''" "invalid_index idx ?n"
    using that(1) invalid_index_rejected [OF that(2), of rnd] by (simp add: listDelete_def)
  have d2: "\<not> monitorUpToDate (listDelete rnd l idx)"
    if "idx \<noteq> JStr ''all''" "listIndex rnd idx ?n \<noteq> - 1 \<or> listDelete rnd l idx \<noteq> l"
    using that by (auto simp: listDelete_def Let_def)
  have d3: "listDelete rnd l (JNum (Fin (of_int k))) =
          l\<lparr>list_value := take (nat (k - 1)) (list_value l) @ drop (nat k) (list_value l),
            monitorUpToDate := False\<rparr>"
    if "1 \<le> k" "k \<le> ?n" "k < 2 ^ 31"
  proof -
    from that have s: "splice_start (list_value l) (k - 1) = nat (k - 1)"
      by (simp add: splice_start_def)
    from that have "Suc (nat (k - 1)) = nat k" by simp
    with s that listIndex_valid [OF that, of rnd] show ?thesis
      by (simp add: listDelete_def splice_delete_def Let_def)
  qed
  have d4: "listDelete rnd l (JStr ''all'') = l\<lparr>list_value := []\<rparr>"
    by (simp add: listDelete_def)
  from r1 r2 r3 i1 i2 i3 d1 d2 d3 d4 show ?thesis by blast
qed

theorem list_mutators_witness:
  "listReplace 0 \<lparr>list_value = [JNum (Fin 1), JNum (Fin 22)], monitorUpToDate = True\<rparr>
       (JNum (Fin 7)) (JStr ''x'')
     = \<lparr>list_value = [JNum (Fin 1), JNum (Fin 22)], monitorUpToDate = True\<rparr>
   \<and> listReplace 0 \<lparr>list_value = [JNum (Fin 1), JNum (Fin 22)], monitorUpToDate = True\<rparr>
       (JNum (Fin 2)) (JStr ''x'')
     = \<lparr>list_value = [JNum (Fin 1), JStr ''x''], monitorUpToDate = False\<rparr>
   \<and> listInsert 0 \<lparr>list_value = [JNum (Fin 1), JNum (Fin 22)], monitorUpToDate = True\<rparr>
       (JNum (Fin 7)) (JStr ''x'')
     = \<lparr>list_value = [JNum (Fin 1), JNum (Fin 22)], monitorUpToDate = True\<rparr>
   \<and> listInsert 0 \<lparr>list_value = [JNum (Fin 1), JNum (Fin 22)], monitorUpToDate = True\<rparr>
       (JNum (Fin 2)) (JStr ''x'')
     = \<lparr>list_value = [JNum (Fin 1), JStr ''x'', JNum (Fin 22)], monitorUpToDate = False\<rparr>
   \<and> listDelete 0 \<lparr>list_value = [JNum (Fin 1), JNum (Fin 22)], monitorUpToDate = True\<rparr>
       (JNum (Fin 7))
     = \<lparr>list_value = [JNum (Fin 1), JNum (Fin 22)], monitorUpToDate = True\<rparr>
   \<and> listDelete 0 \<lparr>list_value = [JNum (Fin 1), JNum (Fin 22)], monitorUpToDate = True\<rparr>
       (JNum (Fin 2))
     = \<lparr>list_value = [JNum (Fin 1)], monitorUpToDate = False\<rparr>
   \<and> \<not> monitorUpToDate
        (listDelete 0 \<lparr>list_value = [JNum (Fin 1), JNum (Fin 22)], monitorUpToDate = True\<rparr>
           (JNum (Fin 2)))"
proof -
  let ?l = "\<lparr>list_value = [JNum (Fin 1), JNum (Fin 22)], monitorUpToDate = True\<rparr>"
  have inv: "invalid_index (JNum (Fin 7)) (int (length (list_value ?l)))"
    "invalid_index (JNum (Fin 7)) (int (length (list_value ?l)) + 1)"
    by code_simp+
  have i2: "listIndex 0 (JNum (Fin 2)) (int (length (list_value ?l))) \<noteq> - 1" by code_simp
  have a: "JNum (Fin 7) \<noteq> JStr ''all''" "JNum (Fin 2) \<noteq> JStr ''all''" by simp_all
  have k: "(1::int) \<le> 2 \<and> 2 \<le> int (length (list_value ?l)) \<and> (2::int) < 2 ^ 31"
    "(1::int) \<le> 2 \<and> 2 \<le> int (length (list_value ?l)) + 1 \<and> (2::int) < 2 ^ 31"
    by simp_all
  note t7 = list_mutators [of "JNum (Fin 7)" ?l 0 "JStr ''x''" 2]
  note t2 = list_mutators [of "JNum (Fin 2)" ?l 0 "JStr ''x''" 2]
  from t7 inv a have u: "listReplace 0 ?l (JNum (Fin 7)) (JStr ''x'') = ?l"
    "listInsert 0 ?l (JNum (Fin 7)) (JStr ''x'') = ?l"
    "listDelete 0 ?l (JNum (Fin 7)) = ?l"
    by blast+
  from t7 k have m: "listReplace 0 ?l (JNum (Fin (of_int 2))) (JStr ''x'') =
        ?l\<lparr>list_value := (list_value ?l)[nat (2 - 1) := JStr ''x''], monitorUpToDate := False\<rparr>"
    "listInsert 0 ?l (JNum (Fin (of_int 2))) (JStr ''x'') =
        ?l\<lparr>list_value := take (nat (2 - 1)) (list_value ?l) @ [JStr ''x'']
                             @ drop (nat (2 - 1)) (list_value ?l),
           monitorUpToDate := False\<rparr>"
    "listDelete 0 ?l (JNum (Fin (of_int 2))) =
        ?l\<lparr>list_value := take (nat (2 - 1)) (list_value ?l) @ drop (nat 2) (list_value ?l),
           monitorUpToDate := False\<rparr>"
    by blast+
  from t2 i2 a have f: "\<not> monitorUpToDate (listDelete 0 ?l (JNum (Fin 2)))" by blast
  from u m f show ?thesis by simp
qed

text \<open>C7 as the specification words it fails, twice. Deleting \<open>"all"\<close> of a one-item list
  whose flag is true changes the list and leaves the flag true. And the index
  \<open>4294967297\<close>, invalid for a list of three items, wraps to 1 under \<open>| 0\<close>:
  \<open>listReplace\<close> overwrites the first item.\<close>

theorem listDelete_all_counterexample:
  "list_value (listDelete 0 \<lparr>list_value = [JNum (Fin 1)], monitorUpToDate = True\<rparr> (JStr ''all''))
     \<noteq> list_value \<lparr>list_value = [JNum (Fin 1)], monitorUpToDate = True\<rparr>
   \<and> monitorUpToDate
        (listDelete 0 \<lparr>list_value = [JNum (Fin 1)], monitorUpToDate = True\<rparr> (JStr ''all''))
   \<and> listReplace 0 \<lparr>list_value = [JStr ''a'', JStr ''b'', JStr ''c''], monitorUpToDate = True\<rparr>
        (JNum (Fin 4294967297)) (JStr ''x'')
      = \<lparr>list_value = [JStr ''x'', JStr ''b'', JStr ''c''], monitorUpToDate = False\<rparr>"
proof -
  have "listReplace 0 \<lparr>list_value = [JStr ''a'', JStr ''b'', JStr ''c''], monitorUpToDate = True\<rparr>
        (JNum (Fin 4294967297)) (JStr ''x'')
      = \<lparr>list_value = [JStr ''x'', JStr ''b'', JStr ''c''], monitorUpToDate = False\<rparr>"
    by code_simp
  then show ?thesis by (simp add: listDelete_def)
qed

section \<open>Properties of \<open>isStuck\<close>\<close>

lemma isStuck_calls_below:
  "stuckCounter s + length es < 100 \<Longrightarrow>
   isStuck_calls es s = (replicate (length es) False, s\<lparr>stuckCounter := stuckCounter s + length es\<rparr>)"
proof (induction es arbitrary: s)
  case Nil
  then show ?case by simp
next
  case (Cons e es)
  then have step: "isStuck e s = (False, s\<lparr>stuckCounter := stuckCounter s + 1\<rparr>)"
    by (simp add: isStuck_def Let_def)
  from Cons.prems have "stuckCounter (s\<lparr>stuckCounter := stuckCounter s + 1\<rparr>) + length es < 100"
    by simp
  from Cons.IH [OF this] step show ?case by simp
qed

lemma isStuck_calls_append:
  "isStuck_calls (xs @ ys) s =
     (fst (isStuck_calls xs s) @ fst (isStuck_calls ys (snd (isStuck_calls xs s))),
      snd (isStuck_calls ys (snd (isStuck_calls xs s))))"
  by (induction xs arbitrary: s) (simp_all add: split_beta Let_def)

text \<open>
  C8. From a state in which the counter is 0 (the initial state, and the state after
  every reset), 99 calls all return false, leave the number of clock reads as it was and
  bring the counter to 99; the next call, the 100th, sets the counter to 0, reads the
  clock once and returns whether the elapsed time is greater than 500. Since the
  counter is 0 again, the same holds for the next hundred calls.
\<close>

theorem isStuck_every_100th:
  "stuckCounter s = 0 \<and> length es = 99 \<longrightarrow>
     isStuck_calls es s = (replicate 99 False, s\<lparr>stuckCounter := 99\<rparr>)
     \<and> isStuck e (s\<lparr>stuckCounter := 99\<rparr>)
         = (js_less (Fin 500) e, s\<lparr>stuckCounter := 0, timer_reads := timer_reads s + 1\<rparr>)
     \<and> isStuck_calls (es @ [e]) s
         = (replicate 99 False @ [js_less (Fin 500) e],
            s\<lparr>stuckCounter := 0, timer_reads := timer_reads s + 1\<rparr>)"
proof
  assume a: "stuckCounter s = 0 \<and> length es = 99"
  then have first: "isStuck_calls es s = (replicate 99 False, s\<lparr>stuckCounter := 99\<rparr>)"
    using isStuck_calls_below [of s es] by simp
  have last: "isStuck e (s\<lparr>stuckCounter := 99\<rparr>)
         = (js_less (Fin 500) e, s\<lparr>stuckCounter := 0, timer_reads := timer_reads s + 1\<rparr>)"
    by (simp add: isStuck_def)
  have "isStuck_calls (es @ [e]) s
         = (replicate 99 False @ [js_less (Fin 500) e],
            s\<lparr>stuckCounter := 0, timer_reads := timer_reads s + 1\<rparr>)"
    by (simp add: isStuck_calls_append first last)
  with first last show "isStuck_calls es s = (replicate 99 False, s\<lparr>stuckCounter := 99\<rparr>)
     \<and> isStuck e (s\<lparr>stuckCounter := 99\<rparr>)
         = (js_less (Fin 500) e, s\<lparr>stuckCounter := 0, timer_reads := timer_reads s + 1\<rparr>)
     \<and> isStuck_calls (es @ [e]) s
         = (replicate 99 False @ [js_less (Fin 500) e],
            s\<lparr>stuckCounter := 0, timer_reads := timer_reads s + 1\<rparr>)" by simp
qed

theorem isStuck_every_100th_witness:
  "isStuck_calls (replicate 99 (Fin 1000) @ [Fin 501]) \<lparr>stuckCounter = 0, timer_reads = 0\<rparr>
     = (replicate 99 False @ [True], \<lparr>stuckCounter = 0, timer_reads = 1\<rparr>)
   \<and> isStuck_calls (replicate 99 (Fin 1000) @ [Fin 500]) \<lparr>stuckCounter = 0, timer_reads = 0\<rparr>
     = (replicate 99 False @ [False], \<lparr>stuckCounter = 0, timer_reads = 1\<rparr>)"
  using isStuck_every_100th [of "\<lparr>stuckCounter = 0, timer_reads = 0\<rparr>" "replicate 99 (Fin 1000)" "Fin 501"]
    isStuck_every_100th [of "\<lparr>stuckCounter = 0, timer_reads = 0\<rparr>" "replicate 99 (Fin 1000)" "Fin 500"]
  by (simp add: js_less_def)

section \<open>Properties of \<open>waitThreads\<close>\<close>

lemma indexOf_from_absent: "0 \<le> i \<Longrightarrow> (indexOf_from i ys x = - 1) = (x \<notin> set ys)"
  by (induction ys arbitrary: i) auto

lemma indexOf_absent: "(indexOf ys x = - 1) = (x \<notin> set ys)"
  by (simp add: indexOf_def indexOf_from_absent)

lemma anyRunning_iff: "anyRunning rt ths = (\<exists>t\<in>set ths. t \<in> set (threads rt))"
  by (induction ths) (auto simp: indexOf_absent)

lemma allWaiting_iff: "allWaiting rt ths = (\<forall>t\<in>set ths. isWaitingThread rt t)"
  by (induction ths) auto

text \<open>
  C9. If none of the threads given to \<open>waitThreads\<close> is in \<open>runtime.threads\<close> when the
  generator is first resumed, that first \<open>next()\<close> returns: no suspension has happened
  and the current thread's status is as it was. (If one of them is active, the first
  \<open>next()\<close> suspends, with the status set to 3 exactly when all of them are waiting.)
\<close>

theorem waitThreads_all_finished:
  "((\<forall>t\<in>set ths. t \<notin> set (threads rt)) \<longrightarrow>
      waitThreads_next rt ths \<lparr>wt_status = st, wt_yields = 0, wt_done = False\<rparr>
        = (Return (), \<lparr>wt_status = st, wt_yields = 0, wt_done = True\<rparr>))
   \<and> ((\<exists>t\<in>set ths. t \<in> set (threads rt)) \<longrightarrow>
      waitThreads_next rt ths \<lparr>wt_status = st, wt_yields = 0, wt_done = False\<rparr>
        = (Yield, \<lparr>wt_status = (if \<forall>t\<in>set ths. isWaitingThread rt t then 3 else st),
                   wt_yields = 1, wt_done = False\<rparr>))"
  by (auto simp: waitThreads_next_def anyRunning_iff allWaiting_iff)

theorem waitThreads_all_finished_witness:
  "waitThreads_next \<lparr>threads = [3 :: nat], isWaitingThread = (\<lambda>t. False)\<rparr> [1, 2]
      \<lparr>wt_status = 0, wt_yields = 0, wt_done = False\<rparr>
     = (Return (), \<lparr>wt_status = 0, wt_yields = 0, wt_done = True\<rparr>)
   \<and> waitThreads_next \<lparr>threads = [2 :: nat], isWaitingThread = (\<lambda>t. True)\<rparr> [1, 2]
      \<lparr>wt_status = 0, wt_yields = 0, wt_done = False\<rparr>
     = (Yield, \<lparr>wt_status = 3, wt_yields = 1, wt_done = False\<rparr>)"
  using waitThreads_all_finished [of "[1, 2]" "\<lparr>threads = [3 :: nat], isWaitingThread = (\<lambda>t. False)\<rparr>" 0]
    waitThreads_all_finished [of "[1, 2]" "\<lparr>threads = [2 :: nat], isWaitingThread = (\<lambda>t. True)\<rparr>" 0]
  by simp

section \<open>Properties of \<open>waitPromise\<close>\<close>

text \<open>
  C3. \<open>waitPromise\<close> suspends with the status \<open>PROMISE_WAIT\<close>. When the promise rejects,
  the \<open>catch\<close> handler sets the status to \<open>RUNNING\<close> and logs one warning with the error;
  the promise that \<open>catch\<close> returns is fulfilled, so the rejection goes no further. The
  next \<open>next()\<close> returns \<open>undefined\<close>: it does not throw.
\<close>

theorem waitPromise_rejection:
  "fst (waitPromise_start s) = Yield
   \<and> status (snd (waitPromise_start s)) = STATUS_PROMISE_WAIT
   \<and> waitPromise_settle (Rejected error) (snd (waitPromise_start s))
       = (Fulfilled JUndefined,
          s\<lparr>returnValue := JUndefined, status := STATUS_RUNNING,
            warnings := warnings s @ [(''Promise rejected in compiled script:'', error)]\<rparr>)
   \<and> fst (waitPromise_resume
            (snd (waitPromise_settle (Rejected error) (snd (waitPromise_start s)))))
       = Return JUndefined"
  by (simp add: waitPromise_start_def waitPromise_settle_def waitPromise_resume_def
      promise_then_def promise_catch_def on_rejected_def STATUS_PROMISE_WAIT_def STATUS_RUNNING_def)

section \<open>Properties of \<open>EventEmitter\<close>\<close>

text \<open>
  C10. For every emitter, event name and argument list, \<open>emit\<close> throws a \<open>TypeError\<close>
  and calls no listener: \<open>indexOf\<close> compares the records of \<open>listerMap\<close> with the event
  name and finds none equal, so \<open>emitter\<close> is the number -1, whose \<open>listener\<close> is
  \<open>undefined\<close>. This is so also right after \<open>on\<close> registered a listener for that name.
\<close>

theorem emit_always_throws:
  "emit eventName param em = Inl TypeError
   \<and> indexOf (map (\<lambda>(n, l). ERecord n l) (listerMap em)) (EString eventName) = - 1
   \<and> emit eventName param (on eventName listener em) = Inl TypeError"
proof -
  have "EString eventName \<notin> set (map (\<lambda>(n, l). ERecord n l) (listerMap em))"
    by auto
  then have "indexOf (map (\<lambda>(n, l). ERecord n l) (listerMap em)) (EString eventName) = - 1"
    by (simp add: indexOf_absent)
  then show ?thesis
    by (simp add: emit_def number_listener_def)
qed

section \<open>Properties of the script assembler\<close>

lemma str_includes_sublist: "str_includes s t = sublist t s"
  by (induction s) (simp_all add: sublist_Cons_right)

lemma insertRuntime_foldl:
  "foldl (\<lambda>result (functionName, text).
            if P functionName then result @ text @ '';'' else result) acc fs
   = acc @ concat (map (\<lambda>(n, t). t @ '';'') (filter (\<lambda>(n, t). P n) fs))"
  by (induction fs arbitrary: acc) (auto simp: split_beta)

lemma insertRuntime_example:
  "insertRuntime ''listGet(l, mod(i, n))''
     = baseRuntime_isWhiteSpace @ baseRuntime_compareEqual @ baseRuntime_listIndex
       @ runtimeFunctions_listGet @ '';'' @ runtimeFunctions_mod @ '';''
       @ ''return listGet(l, mod(i, n))''"
  by (simp add: insertRuntime_def runtimeFunctions_def baseRuntime_def)

lemma insertRuntime_no_randomInt:
  "\<not> str_includes (insertRuntime ''listGet(l, mod(i, n))'') ''randomInt''"
  by code_simp

text \<open>
  C2, as the source has it. The assembled unit is the base runtime, which holds the
  definitions of \<open>isWhiteSpace\<close>, \<open>compareEqual\<close> and \<open>listIndex\<close>; then, in the order of
  the table, the definition of each entry of \<open>runtimeFunctions\<close> whose name occurs in the
  source as a substring, each followed by a semicolon; then \<open>return\<close> and the source.
  For a script that refers to \<open>listGet\<close> and \<open>mod\<close> these are the three base definitions
  and the definitions of \<open>listGet\<close> and \<open>mod\<close>, and \<open>randomInt\<close> occurs nowhere in the
  unit.
\<close>

theorem insertRuntime_assembly:
  "insertRuntime source
     = baseRuntime_isWhiteSpace @ baseRuntime_compareEqual @ baseRuntime_listIndex
       @ concat (map (\<lambda>(n, t). t @ '';'') (filter (\<lambda>(n, t). sublist n source) runtimeFunctions))
       @ ''return '' @ source
   \<and> insertRuntime ''listGet(l, mod(i, n))''
     = baseRuntime_isWhiteSpace @ baseRuntime_compareEqual @ baseRuntime_listIndex
       @ runtimeFunctions_listGet @ '';'' @ runtimeFunctions_mod @ '';''
       @ ''return listGet(l, mod(i, n))''
   \<and> \<not> sublist ''randomInt'' (insertRuntime ''listGet(l, mod(i, n))'')"
  using insertRuntime_example insertRuntime_no_randomInt
  by (simp add: insertRuntime_def insertRuntime_foldl str_includes_sublist baseRuntime_def)

lemma baseRuntime_listIndex_nonempty: "baseRuntime_listIndex \<noteq> []"
  by (simp add: baseRuntime_listIndex_def)

text \<open>C2 as the specification words it fails: the unit is not the definitions of
  \<open>isWhiteSpace\<close> and \<open>compareEqual\<close> followed by those of \<open>listGet\<close> and \<open>mod\<close>; it holds
  the definition of \<open>listIndex\<close> as well, whose name does not occur in the source.\<close>

theorem insertRuntime_base_counterexample:
  "insertRuntime ''listGet(l, mod(i, n))''
     \<noteq> baseRuntime_isWhiteSpace @ baseRuntime_compareEqual
       @ runtimeFunctions_listGet @ '';'' @ runtimeFunctions_mod @ '';''
       @ ''return listGet(l, mod(i, n))''
   \<and> \<not> sublist ''listIndex'' ''listGet(l, mod(i, n))''
   \<and> sublist baseRuntime_listIndex (insertRuntime ''listGet(l, mod(i, n))'')"
proof -
  have "\<not> str_includes ''listGet(l, mod(i, n))'' ''listIndex''" by simp
  then have a: "\<not> sublist ''listIndex'' ''listGet(l, mod(i, n))''"
    by (simp add: str_includes_sublist [symmetric])
  have b: "sublist baseRuntime_listIndex (insertRuntime ''listGet(l, mod(i, n))'')"
    unfolding insertRuntime_example
    by (metis append.assoc sublist_appendI)
  have c: "insertRuntime ''listGet(l, mod(i, n))''
     \<noteq> baseRuntime_isWhiteSpace @ baseRuntime_compareEqual
       @ runtimeFunctions_listGet @ '';'' @ runtimeFunctions_mod @ '';''
       @ ''return listGet(l, mod(i, n))''"
    unfolding insertRuntime_example using baseRuntime_listIndex_nonempty by simp
  from a b c show ?thesis by simp
qed

end
